theory Spec2Isabelle
  imports Main
begin

text \<open>
  The converter of OpenTelemetry Collector configurations to Alloy configurations,
  \<^verbatim>\<open>internal/converter/internal/otelcolconvert/otelcolconvert.go\<close>: \<^verbatim>\<open>Convert\<close>,
  \<^verbatim>\<open>readOpentelemetryConfig\<close>, \<^verbatim>\<open>getFactories\<close>, \<^verbatim>\<open>AppendConfig\<close>,
  \<^verbatim>\<open>validateNoDuplicateReceivers\<close>, \<^verbatim>\<open>buildConverterTable\<close> and \<^verbatim>\<open>filterIDs\<close>. A panic
  is the left summand of a result, a Go error a string in a sum, a loop a recursive
  function over the slice it ranges over.
\<close>

section \<open>Component identities\<close>

text \<open>
  \<^verbatim>\<open>component.ID\<close> of the OpenTelemetry Collector is a comparable struct of a
  component type and an instance name; Go's \<^verbatim>\<open>==\<close> on it is structural, as the
  equality of the datatype is. \<^verbatim>\<open>component.Kind\<close> is the role of a component.
\<close>

datatype ID = ID (idType: string) (idName: string)

datatype Kind = KindReceiver | KindProcessor | KindExporter | KindExtension | KindConnector

text \<open>\<^verbatim>\<open>id.String()\<close>: the type alone, or \<^verbatim>\<open>type/name\<close> when the name is not empty.\<close>

definition idString :: "ID \<Rightarrow> string" where
  "idString i = (if idName i = [] then idType i else idType i @ ''/'' @ idName i)"

section \<open>filterIDs\<close>

text \<open>
  The inner loop of \<^verbatim>\<open>filterIDs\<close> runs over all of \<^verbatim>\<open>rem\<close> (it has no
  \<^verbatim>\<open>break\<close>) and raises the flag \<^verbatim>\<open>exists\<close>; the outer loop appends the element to
  \<^verbatim>\<open>res\<close> when the flag stayed down. \<^verbatim>\<open>res\<close> starts as the nil slice, the empty list
  here, and is the only slice written to.
\<close>

fun filterIDs_exists :: "ID list \<Rightarrow> ID \<Rightarrow> bool \<Rightarrow> bool" where
  "filterIDs_exists [] s e = e"
| "filterIDs_exists (i # rem) s e = filterIDs_exists rem s (if s = i then True else e)"

fun filterIDs_loop :: "ID list \<Rightarrow> ID list \<Rightarrow> ID list \<Rightarrow> ID list" where
  "filterIDs_loop [] rem res = res"
| "filterIDs_loop (s # ins) rem res =
     filterIDs_loop ins rem (if \<not> filterIDs_exists rem s False then res @ [s] else res)"

definition filterIDs :: "ID list \<Rightarrow> ID list \<Rightarrow> ID list" where
  "filterIDs ins rem = filterIDs_loop ins rem []"

section \<open>Diagnostics\<close>

text \<open>
  Modelled from the spec: the package \<^verbatim>\<open>diag\<close> is not among the sources. Diagnostics are
  an ordered, accumulating list of (severity, message) pairs; \<^verbatim>\<open>Add\<close> appends one entry and
  \<^verbatim>\<open>AddAll\<close> appends a list.
\<close>

datatype Severity =
  SeverityLevelInfo | SeverityLevelWarn | SeverityLevelError | SeverityLevelCritical

record Diagnostic =
  Severity :: Severity
  Summary :: string

type_synonym Diagnostics = "Diagnostic list"

definition Add :: "Diagnostics \<Rightarrow> Severity \<Rightarrow> string \<Rightarrow> Diagnostics" where
  "Add ds sev msg = ds @ [\<lparr>Severity = sev, Summary = msg\<rparr>]"

definition AddAll :: "Diagnostics \<Rightarrow> Diagnostics \<Rightarrow> Diagnostics" where
  "AddAll ds new = ds @ new"

definition critical :: "Diagnostic \<Rightarrow> bool" where
  "critical d = (Severity d = SeverityLevelCritical)"

text \<open>
  \<^verbatim>\<open>%q\<close> of \<^verbatim>\<open>fmt.Sprintf\<close> on a string is \<^verbatim>\<open>strconv.Quote\<close>: the string between
  double quotes, with a backslash before a double quote and before a backslash, the
  escapes \<^verbatim>\<open>\a \b \f \n \r \t \v\<close> for these seven control characters, and \<^verbatim>\<open>\x\<close> with
  two hexadecimal digits for every other byte below 0x20 and for 0x7f. Bytes from 0x80
  on are kept as they are, which is what \<^verbatim>\<open>Quote\<close> does with the printable runes of
  valid UTF-8.
\<close>

definition hexDigit :: "nat \<Rightarrow> char" where
  "hexDigit n = ''0123456789abcdef'' ! n"

definition quoteByte :: "char \<Rightarrow> string" where
  "quoteByte c =
     (if c = CHR 0x22 then [CHR 0x5C, CHR 0x22]
      else if c = CHR 0x5C then [CHR 0x5C, CHR 0x5C]
      else if c = CHR 0x07 then [CHR 0x5C, CHR ''a'']
      else if c = CHR 0x08 then [CHR 0x5C, CHR ''b'']
      else if c = CHR 0x0C then [CHR 0x5C, CHR ''f'']
      else if c = CHR 0x0A then [CHR 0x5C, CHR ''n'']
      else if c = CHR 0x0D then [CHR 0x5C, CHR ''r'']
      else if c = CHR 0x09 then [CHR 0x5C, CHR ''t'']
      else if c = CHR 0x0B then [CHR 0x5C, CHR ''v'']
      else if of_char c < (0x20 :: nat) \<or> c = CHR 0x7F
        then [CHR 0x5C, CHR ''x'',
              hexDigit ((of_char c :: nat) div 16), hexDigit ((of_char c :: nat) mod 16)]
      else [c])"

definition fmt_q :: "string \<Rightarrow> string" where
  "fmt_q s = [CHR 0x22] @ concat (map quoteByte s) @ [CHR 0x22]"

section \<open>Factories, converters and the converter table\<close>

text \<open>
  \<^verbatim>\<open>conv.Factory()\<close> returns a \<^verbatim>\<open>component.Factory\<close>; the type switches of the source
  ask which of the five factory interfaces the value implements. The interfaces have
  unexported methods and disjoint method sets, so a value is of one shape, or of none
  of the five (\<open>OtherFactory\<close>, which also stands for the nil interface). Each factory
  carries the component type \<^verbatim>\<open>fact.Type()\<close> returns.
\<close>

datatype factory =
  ReceiverFactory string
| ProcessorFactory string
| ExporterFactory string
| ConnectorFactory string
| ExtensionFactory string
| OtherFactory string

fun factoryType :: "factory \<Rightarrow> string" where
  "factoryType (ReceiverFactory t) = t"
| "factoryType (ProcessorFactory t) = t"
| "factoryType (ExporterFactory t) = t"
| "factoryType (ConnectorFactory t) = t"
| "factoryType (ExtensionFactory t) = t"
| "factoryType (OtherFactory t) = t"

record converterKey =
  Kind :: Kind
  Type :: string

text \<open>The two conditions the source treats as fatal for the program: both are panics.\<close>

datatype panic =
  NoConverterFound converterKey
| UnknownFactoryType factory

text \<open>
  \<^verbatim>\<open>componentstatus.NewInstanceID(id, kind)\<close>: the identity of one component in one role.
\<close>

datatype InstanceID = InstanceID ID Kind

definition NewInstanceID :: "ID \<Rightarrow> Kind \<Rightarrow> InstanceID" where
  "NewInstanceID i k = InstanceID i k"

text \<open>
  Modelled from the spec: \<^verbatim>\<open>pipelineGroup\<close> and \<^verbatim>\<open>createPipelineGroups\<close> are in a file
  that is not among the sources. A group is held as what its accessors
  \<^verbatim>\<open>Receivers()\<close>, \<^verbatim>\<open>Processors()\<close> and \<^verbatim>\<open>Exporters()\<close> return: the member
  identities of each role.
\<close>

record pipelineGroup =
  group_Receivers :: "ID list"
  group_Processors :: "ID list"
  group_Exporters :: "ID list"

text \<open>
  \<^verbatim>\<open>otelcol.Config\<close>: one map from identity to configuration per role, and the service
  section (its pipelines are only handed to \<^verbatim>\<open>createPipelineGroups\<close>, so their type
  \<open>'p\<close> is left open, as is \<open>'c\<close>, the type of a component's configuration).
\<close>

record 'p Service =
  ServiceExtensions :: "ID list"
  ServicePipelines :: 'p

record ('c, 'p) Config =
  Receivers :: "ID \<rightharpoonup> 'c"
  Processors :: "ID \<rightharpoonup> 'c"
  Exporters :: "ID \<rightharpoonup> 'c"
  Connectors :: "ID \<rightharpoonup> 'c"
  Extensions :: "ID \<rightharpoonup> 'c"
  Service :: "'p Service"

text \<open>
  Modelled from the spec: the struct \<^verbatim>\<open>componentID\<close> of the package is declared in a file
  that is not among the sources. It is the reference to an emitted block that the
  extension table holds, the output type path and the output label (the name
  \<open>componentID\<close> is taken by the field of \<^verbatim>\<open>State\<close>).
\<close>

record blockRef =
  Name :: "string list"
  Label :: string

text \<open>
  The field \<^verbatim>\<open>componentConfig\<close> of \<^verbatim>\<open>State\<close> has the interface type
  \<^verbatim>\<open>component.Config\<close>: the extension loop stores the whole map \<^verbatim>\<open>cfg.Extensions\<close>
  in it, the group loop the entry of the component (nil when the map has none).
\<close>

datatype 'c componentConfig = ConfigMap "ID \<rightharpoonup> 'c" | ConfigEntry "'c option"

text \<open>
  What a converter shows of itself without converting: its factory and the name of the
  block it emits. The table handed to a conversion in \<^verbatim>\<open>State\<close> holds this view of every
  registered converter (a record cannot hold functions over its own type).
\<close>

record converterInfo =
  Factory :: factory
  InputComponentName :: string

text \<open>
  Modelled from the spec: \<^verbatim>\<open>State\<close>, the context of one conversion, is declared in a file
  that is not among the sources; its fields here are those \<^verbatim>\<open>AppendConfig\<close> sets.
  \<open>file'\<close> (the field \<^verbatim>\<open>file\<close>) is the output file as it is when the conversion starts;
  a conversion returns the file as it leaves it.
\<close>

record ('c, 'p, 'f) State =
  cfg :: "('c, 'p) Config"
  file' :: 'f
  group :: pipelineGroup
  converterLookup :: "converterKey \<rightharpoonup> converterInfo"
  extensionLookup :: "ID \<rightharpoonup> blockRef"
  componentConfig :: "'c componentConfig"
  componentID :: InstanceID
  componentLabelPrefix :: string

text \<open>
  Modelled from the spec: the interface \<^verbatim>\<open>ComponentConverter\<close> is declared in a file that
  is not among the sources. A converter exposes \<^verbatim>\<open>Factory\<close>, \<^verbatim>\<open>InputComponentName\<close> and
  \<^verbatim>\<open>ConvertAndAppend(state, id, cfg)\<close>, which returns diagnostics and writes to the
  file of the state.
\<close>

record ('c, 'p, 'f) ComponentConverter = converterInfo +
  ConvertAndAppend :: "('c, 'p, 'f) State \<Rightarrow> InstanceID \<Rightarrow> 'c option \<Rightarrow> Diagnostics \<times> 'f"

type_synonym ('c, 'p, 'f) converterTable =
  "converterKey \<rightharpoonup> ('c, 'p, 'f) ComponentConverter"

text \<open>
  The type switch of \<^verbatim>\<open>buildConverterTable\<close>. It has no default case: a factory of none
  of the five shapes leaves \<^verbatim>\<open>kinds\<close> empty.
\<close>

fun factoryKinds :: "factory \<Rightarrow> Kind list" where
  "factoryKinds (ReceiverFactory t) = [KindReceiver]"
| "factoryKinds (ProcessorFactory t) = [KindProcessor]"
| "factoryKinds (ExporterFactory t) = [KindExporter]"
| "factoryKinds (ConnectorFactory t) = [KindConnector, KindExporter, KindReceiver]"
| "factoryKinds (ExtensionFactory t) = [KindExtension]"
| "factoryKinds (OtherFactory t) = []"

text \<open>The loop over \<^verbatim>\<open>kinds\<close>: an occupied key is skipped (\<^verbatim>\<open>continue\<close>).\<close>

fun registerKinds ::
  "('c, 'p, 'f) ComponentConverter \<Rightarrow> Kind list \<Rightarrow> ('c, 'p, 'f) converterTable \<Rightarrow>
   ('c, 'p, 'f) converterTable" where
  "registerKinds conv [] table = table"
| "registerKinds conv (kind # kinds) table =
     (if table \<lparr>Kind = kind, Type = factoryType (Factory conv)\<rparr> \<noteq> None
      then registerKinds conv kinds table
      else registerKinds conv kinds
             (table(\<lparr>Kind = kind, Type = factoryType (Factory conv)\<rparr> \<mapsto> conv)))"

fun buildConverterTable_loop ::
  "('c, 'p, 'f) ComponentConverter list \<Rightarrow> ('c, 'p, 'f) converterTable \<Rightarrow>
   ('c, 'p, 'f) converterTable" where
  "buildConverterTable_loop [] table = table"
| "buildConverterTable_loop (conv # allConverters) table =
     buildConverterTable_loop allConverters
       (registerKinds conv (factoryKinds (Factory conv)) table)"

text \<open>
  \<^verbatim>\<open>buildConverterTable(extraConverters)\<close>; \<open>builtins\<close> is the package variable
  \<^verbatim>\<open>converters\<close>, the list of built-in converters, which the \<^verbatim>\<open>init\<close> functions of files
  outside the sources fill.
\<close>

definition buildConverterTable ::
  "('c, 'p, 'f) ComponentConverter list \<Rightarrow> ('c, 'p, 'f) ComponentConverter list \<Rightarrow>
   ('c, 'p, 'f) converterTable" where
  "buildConverterTable builtins extraConverters =
     buildConverterTable_loop (extraConverters @ builtins) Map.empty"

text \<open>A converter declares a key when its factory's kinds hold the key's kind and its type is the key's.\<close>

definition declares :: "('c, 'p, 'f) ComponentConverter \<Rightarrow> converterKey \<Rightarrow> bool" where
  "declares conv key =
     (Kind key \<in> set (factoryKinds (Factory conv)) \<and> Type key = factoryType (Factory conv))"

section \<open>Duplicate receivers\<close>

definition duplicateReceiver :: "ID \<Rightarrow> Diagnostic" where
  "duplicateReceiver receiver =
     \<lparr>Severity = SeverityLevelCritical,
      Summary = ''the configuration is unsupported because the receiver '' @
        fmt_q (idString receiver) @
        '' is used across multiple pipelines with distinct names''\<rparr>"

text \<open>
  The two loops of \<^verbatim>\<open>validateNoDuplicateReceivers\<close> over the pair of \<^verbatim>\<open>diags\<close> and the
  set \<^verbatim>\<open>usedReceivers\<close>. Neither loop has a \<^verbatim>\<open>break\<close> or a \<^verbatim>\<open>return\<close>.
\<close>

fun validateReceivers :: "ID list \<Rightarrow> Diagnostics \<times> ID set \<Rightarrow> Diagnostics \<times> ID set" where
  "validateReceivers [] (ds, usedReceivers) = (ds, usedReceivers)"
| "validateReceivers (receiver # receiverIDs) (ds, usedReceivers) =
     validateReceivers receiverIDs
       ((if receiver \<in> usedReceivers then ds @ [duplicateReceiver receiver] else ds),
        insert receiver usedReceivers)"

fun validateGroups ::
  "pipelineGroup list \<Rightarrow> ID list \<Rightarrow> Diagnostics \<times> ID set \<Rightarrow> Diagnostics \<times> ID set" where
  "validateGroups [] connectorIDs acc = acc"
| "validateGroups (grp # groups) connectorIDs acc =
     validateGroups groups connectorIDs
       (validateReceivers (filterIDs (group_Receivers grp) connectorIDs) acc)"

definition validateNoDuplicateReceivers :: "pipelineGroup list \<Rightarrow> ID list \<Rightarrow> Diagnostics" where
  "validateNoDuplicateReceivers groups connectorIDs =
     fst (validateGroups groups connectorIDs ([], {}))"

section \<open>Collaborators\<close>

text \<open>
  \<^verbatim>\<open>getFactories\<close>: the five maps from component type to factory. An assignment
  overwrites an earlier entry; a factory of none of the five shapes panics.
\<close>

record Factories =
  factReceivers :: "string \<rightharpoonup> factory"
  factProcessors :: "string \<rightharpoonup> factory"
  factExporters :: "string \<rightharpoonup> factory"
  factExtensions :: "string \<rightharpoonup> factory"
  factConnectors :: "string \<rightharpoonup> factory"

fun getFactories_loop ::
  "('c, 'p, 'f) ComponentConverter list \<Rightarrow> Factories \<Rightarrow> panic + Factories" where
  "getFactories_loop [] facts = Inr facts"
| "getFactories_loop (converter # cs) facts =
     (case Factory converter of
        ReceiverFactory t \<Rightarrow>
          getFactories_loop cs (facts\<lparr>factReceivers := (factReceivers facts)(t \<mapsto> Factory converter)\<rparr>)
      | ProcessorFactory t \<Rightarrow>
          getFactories_loop cs (facts\<lparr>factProcessors := (factProcessors facts)(t \<mapsto> Factory converter)\<rparr>)
      | ExporterFactory t \<Rightarrow>
          getFactories_loop cs (facts\<lparr>factExporters := (factExporters facts)(t \<mapsto> Factory converter)\<rparr>)
      | ExtensionFactory t \<Rightarrow>
          getFactories_loop cs (facts\<lparr>factExtensions := (factExtensions facts)(t \<mapsto> Factory converter)\<rparr>)
      | ConnectorFactory t \<Rightarrow>
          getFactories_loop cs (facts\<lparr>factConnectors := (factConnectors facts)(t \<mapsto> Factory converter)\<rparr>)
      | OtherFactory t \<Rightarrow> Inl (UnknownFactoryType (Factory converter)))"

definition getFactories :: "('c, 'p, 'f) ComponentConverter list \<Rightarrow> panic + Factories" where
  "getFactories cs =
     getFactories_loop cs
       \<lparr>factReceivers = Map.empty, factProcessors = Map.empty, factExporters = Map.empty,
        factExtensions = Map.empty, factConnectors = Map.empty\<rparr>"

text \<open>
  What the source calls and the sources do not hold, as the fields of one record:
  \<^item> \<open>converters\<close>: the package's list of built-in converters;
  \<^item> \<open>createPipelineGroups\<close>: the grouping of the pipelines, or an error;
  \<^item> \<open>maps_Keys\<close>: \<^verbatim>\<open>maps.Keys\<close>, the keys of a map in the order the Go runtime
    enumerates them in this run (the language leaves the order open);
  \<^item> \<open>AlloyComponentLabel\<close>: the method of \<^verbatim>\<open>State\<close>;
  \<^item> \<open>NewConfigProvider\<close> (from the URIs) and \<open>Get\<close>: the collector's configuration
    provider, each with its error;
  \<^item> \<open>Validate\<close>: \<^verbatim>\<open>cfg.Validate()\<close>, the error if there is one;
  \<^item> \<open>NewFile\<close>, \<open>WriteTo\<close>: the builder's empty file and its rendering (bytes, or an error);
  \<^item> \<open>ValidateNodes\<close>, \<open>PrettyPrint\<close>: of the package \<^verbatim>\<open>common\<close>.
  A byte slice that may be nil is a \<open>string option\<close>, \<open>None\<close> for nil.
\<close>

record ('c, 'p, 'f, 'r) env =
  converters :: "('c, 'p, 'f) ComponentConverter list"
  createPipelineGroups :: "'p \<Rightarrow> string + pipelineGroup list"
  maps_Keys :: "(ID \<rightharpoonup> 'c) \<Rightarrow> ID list"
  AlloyComponentLabel :: "('c, 'p, 'f) State \<Rightarrow> string"
  NewConfigProvider :: "string list \<Rightarrow> string + 'r"
  Get :: "'r \<Rightarrow> Factories \<Rightarrow> string + ('c, 'p) Config"
  Validate :: "('c, 'p) Config \<Rightarrow> string option"
  NewFile :: 'f
  ValidateNodes :: "'f \<Rightarrow> Diagnostics"
  WriteTo :: "'f \<Rightarrow> string + string"
  PrettyPrint :: "string \<Rightarrow> string option \<times> Diagnostics"

text \<open>\<^verbatim>\<open>maps.Keys(m)\<close> returns every key of the map once.\<close>

definition enumerates :: "('k \<rightharpoonup> 'v) \<Rightarrow> 'k list \<Rightarrow> bool" where
  "enumerates m ks = (distinct ks \<and> set ks = dom m)"

section \<open>AppendConfig\<close>

text \<open>
  A call of \<^verbatim>\<open>conv.ConvertAndAppend(state, id, cfg)\<close>: the instance, the converter
  called, and the state and the configuration handed to it.
\<close>

type_synonym ('c, 'p, 'f) call =
  "InstanceID \<times> ('c, 'p, 'f) ComponentConverter \<times> ('c, 'p, 'f) State \<times> 'c option"

text \<open>
  What the loops of \<^verbatim>\<open>AppendConfig\<close> carry: the diagnostics, the output file, the
  extension table, and \<open>invoked\<close>, the calls of \<^verbatim>\<open>ConvertAndAppend\<close> made so far, in
  order (the source keeps no such record, it is here to state which conversions ran).
\<close>

record ('c, 'p, 'f) progress =
  diags :: Diagnostics
  out :: 'f
  extensionTable :: "ID \<rightharpoonup> blockRef"
  invoked :: "('c, 'p, 'f) call list"

definition viewTable :: "('c, 'p, 'f) converterTable \<Rightarrow> (converterKey \<rightharpoonup> converterInfo)" where
  "viewTable table key =
     (case table key of None \<Rightarrow> None
      | Some conv \<Rightarrow> Some \<lparr>Factory = Factory conv, InputComponentName = InputComponentName conv\<rparr>)"

text \<open>\<^verbatim>\<open>strings.Split(s, ".")\<close>.\<close>

fun split_dot :: "string \<Rightarrow> string list" where
  "split_dot [] = [[]]"
| "split_dot (c # cs) =
     (if c = CHR ''.'' then [] # split_dot cs
      else (case split_dot cs of [] \<Rightarrow> [[c]] | w # ws \<Rightarrow> (c # w) # ws))"

text \<open>
  The loop over \<^verbatim>\<open>cfg.Service.Extensions\<close>. \<^verbatim>\<open>state.AlloyComponentLabel()\<close> is called after
  the conversion, when the file of the state is the file the conversion left.
\<close>

fun convertExtensions ::
  "('c, 'p, 'f, 'r) env \<Rightarrow> ('c, 'p) Config \<Rightarrow> string \<Rightarrow> ('c, 'p, 'f) converterTable \<Rightarrow>
   ID list \<Rightarrow> ('c, 'p, 'f) progress \<Rightarrow> panic + ('c, 'p, 'f) progress" where
  "convertExtensions e config labelPrefix converterTable [] st = Inr st"
| "convertExtensions e config labelPrefix converterTable (ext # exts) st =
     (let state =
            \<lparr>cfg = config, file' = out st,
             group = \<lparr>group_Receivers = [], group_Processors = [], group_Exporters = []\<rparr>,
             converterLookup = viewTable converterTable,
             extensionLookup = Map.empty,
             componentConfig = ConfigMap (Extensions config),
             componentID = NewInstanceID ext KindExtension,
             componentLabelPrefix = labelPrefix\<rparr>
      in case converterTable \<lparr>Kind = KindExtension, Type = idType ext\<rparr> of
           None \<Rightarrow> Inl (NoConverterFound \<lparr>Kind = KindExtension, Type = idType ext\<rparr>)
         | Some conv \<Rightarrow>
             (case ConvertAndAppend conv state (NewInstanceID ext KindExtension)
                     (Extensions config ext) of
                (d, f) \<Rightarrow>
                  convertExtensions e config labelPrefix converterTable exts
                    (st\<lparr>diags := AddAll (diags st) d,
                        out := f,
                        extensionTable := (extensionTable st)(ext \<mapsto>
                          \<lparr>Name = split_dot (InputComponentName conv),
                           Label = AlloyComponentLabel e (state\<lparr>file' := f\<rparr>)\<rparr>),
                        invoked := invoked st @
                          [(NewInstanceID ext KindExtension, conv, state,
                            Extensions config ext)]\<rparr>)))"

text \<open>The innermost loop of the group phase, over the identities of one component set.\<close>

fun convertIDs ::
  "('c, 'p) Config \<Rightarrow> string \<Rightarrow> ('c, 'p, 'f) converterTable \<Rightarrow> pipelineGroup \<Rightarrow> Kind \<Rightarrow>
   (ID \<rightharpoonup> 'c) \<Rightarrow> ID list \<Rightarrow> ('c, 'p, 'f) progress \<Rightarrow> panic + ('c, 'p, 'f) progress" where
  "convertIDs config labelPrefix converterTable grp kind configLookup [] st = Inr st"
| "convertIDs config labelPrefix converterTable grp kind configLookup (i # ids) st =
     (let state =
            \<lparr>cfg = config, file' = out st, group = grp,
             converterLookup = viewTable converterTable,
             extensionLookup = extensionTable st,
             componentConfig = ConfigEntry (configLookup i),
             componentID = NewInstanceID i kind,
             componentLabelPrefix = labelPrefix\<rparr>
      in case converterTable \<lparr>Kind = kind, Type = idType i\<rparr> of
           None \<Rightarrow> Inl (NoConverterFound \<lparr>Kind = kind, Type = idType i\<rparr>)
         | Some conv \<Rightarrow>
             (case ConvertAndAppend conv state (NewInstanceID i kind) (configLookup i) of
                (d, f) \<Rightarrow>
                  convertIDs config labelPrefix converterTable grp kind configLookup ids
                    (st\<lparr>diags := AddAll (diags st) d,
                        out := f,
                        invoked := invoked st @
                          [(NewInstanceID i kind, conv, state, configLookup i)]\<rparr>)))"

text \<open>The loop over \<^verbatim>\<open>componentSets\<close>: (kind, ids, configLookup).\<close>

fun convertSets ::
  "('c, 'p) Config \<Rightarrow> string \<Rightarrow> ('c, 'p, 'f) converterTable \<Rightarrow> pipelineGroup \<Rightarrow>
   (Kind \<times> ID list \<times> (ID \<rightharpoonup> 'c)) list \<Rightarrow> ('c, 'p, 'f) progress \<Rightarrow>
   panic + ('c, 'p, 'f) progress" where
  "convertSets config labelPrefix converterTable grp [] st = Inr st"
| "convertSets config labelPrefix converterTable grp ((kind, ids, configLookup) # componentSets) st =
     (case convertIDs config labelPrefix converterTable grp kind configLookup ids st of
        Inl p \<Rightarrow> Inl p
      | Inr st' \<Rightarrow> convertSets config labelPrefix converterTable grp componentSets st')"

definition componentSets ::
  "('c, 'p) Config \<Rightarrow> ID list \<Rightarrow> pipelineGroup \<Rightarrow> (Kind \<times> ID list \<times> (ID \<rightharpoonup> 'c)) list" where
  "componentSets config connectorIDs grp =
     [(KindReceiver, filterIDs (group_Receivers grp) connectorIDs, Receivers config),
      (KindProcessor, group_Processors grp, Processors config),
      (KindExporter, filterIDs (group_Exporters grp) connectorIDs, Exporters config),
      (KindConnector, connectorIDs, Connectors config)]"

text \<open>The loop over \<^verbatim>\<open>groups\<close>.\<close>

fun convertGroups ::
  "('c, 'p) Config \<Rightarrow> string \<Rightarrow> ('c, 'p, 'f) converterTable \<Rightarrow> ID list \<Rightarrow>
   pipelineGroup list \<Rightarrow> ('c, 'p, 'f) progress \<Rightarrow> panic + ('c, 'p, 'f) progress" where
  "convertGroups config labelPrefix converterTable connectorIDs [] st = Inr st"
| "convertGroups config labelPrefix converterTable connectorIDs (grp # groups) st =
     (case convertSets config labelPrefix converterTable grp
             (componentSets config connectorIDs grp) st of
        Inl p \<Rightarrow> Inl p
      | Inr st' \<Rightarrow> convertGroups config labelPrefix converterTable connectorIDs groups st')"

text \<open>
  \<^verbatim>\<open>AppendConfig(file, cfg, labelPrefix, extraConverters)\<close>. The result is a panic, or
  the diagnostics returned together with the file as the call leaves it.
\<close>

definition AppendConfig ::
  "('c, 'p, 'f, 'r) env \<Rightarrow> 'f \<Rightarrow> ('c, 'p) Config \<Rightarrow> string \<Rightarrow>
   ('c, 'p, 'f) ComponentConverter list \<Rightarrow> panic + ('c, 'p, 'f) progress" where
  "AppendConfig e file config labelPrefix extraConverters =
     (case createPipelineGroups e (ServicePipelines (Service config)) of
        Inl err \<Rightarrow>
          Inr \<lparr>diags = Add [] SeverityLevelCritical (''failed to interpret config: '' @ err),
               out = file, extensionTable = Map.empty, invoked = []\<rparr>
      | Inr groups \<Rightarrow>
          (let converterTable = buildConverterTable (converters e) extraConverters;
               connectorIDs = maps_Keys e (Connectors config);
               duplicateDiags = validateNoDuplicateReceivers groups connectorIDs
           in if length duplicateDiags > 0
              then Inr \<lparr>diags = AddAll [] duplicateDiags,
                        out = file, extensionTable = Map.empty, invoked = []\<rparr>
              else (case convertExtensions e config labelPrefix converterTable
                           (ServiceExtensions (Service config))
                           \<lparr>diags = [], out = file, extensionTable = Map.empty, invoked = []\<rparr> of
                      Inl p \<Rightarrow> Inl p
                    | Inr st \<Rightarrow>
                        convertGroups config labelPrefix converterTable connectorIDs groups st)))"

section \<open>Convert\<close>

text \<open>\<^verbatim>\<open>readOpentelemetryConfig\<close>: a panic of \<^verbatim>\<open>getFactories\<close>, an error, or the configuration.\<close>

definition readOpentelemetryConfig ::
  "('c, 'p, 'f, 'r) env \<Rightarrow> string \<Rightarrow> panic + (string + ('c, 'p) Config)" where
  "readOpentelemetryConfig e inp =
     (case NewConfigProvider e [''yaml:'' @ inp] of
        Inl err \<Rightarrow> Inr (Inl (''failed to create otelcol config provider: '' @ err))
      | Inr configProvider \<Rightarrow>
          (case getFactories (converters e) of
             Inl p \<Rightarrow> Inl p
           | Inr facts \<Rightarrow>
               (case Get e configProvider facts of
                  Inl err \<Rightarrow> Inr (Inl (''failed to get otelcol config: '' @ err))
                | Inr config \<Rightarrow> Inr (Inr config))))"

text \<open>\<^verbatim>\<open>%s\<close> of a string slice: the elements between brackets, a space between two.\<close>

fun joinSpace :: "string list \<Rightarrow> string" where
  "joinSpace [] = []"
| "joinSpace [s] = s"
| "joinSpace (s # ss) = s @ '' '' @ joinSpace ss"

definition fmt_s_list :: "string list \<Rightarrow> string" where
  "fmt_s_list ss = ''['' @ joinSpace ss @ '']''"

text \<open>
  \<^verbatim>\<open>Convert(in, extraArgs)\<close>: a panic, or the pair of the output bytes (\<open>None\<close> where the
  source returns nil) and the diagnostics.
\<close>

definition Convert ::
  "('c, 'p, 'f, 'r) env \<Rightarrow> string \<Rightarrow> string list \<Rightarrow> panic + (string option \<times> Diagnostics)" where
  "Convert e inp extraArgs =
     (if length extraArgs > 0
      then Inr (None, Add [] SeverityLevelCritical
                  (''extra arguments are not supported for the otelcol converter: '' @
                   fmt_s_list extraArgs))
      else (case readOpentelemetryConfig e inp of
              Inl p \<Rightarrow> Inl p
            | Inr (Inl err) \<Rightarrow> Inr (None, Add [] SeverityLevelCritical err)
            | Inr (Inr config) \<Rightarrow>
                (case Validate e config of
                   Some err \<Rightarrow>
                     Inr (None, Add [] SeverityLevelCritical (''failed to validate config: '' @ err))
                 | None \<Rightarrow>
                     (case AppendConfig e (NewFile e) config [] [] of
                        Inl p \<Rightarrow> Inl p
                      | Inr st \<Rightarrow>
                          (let ds = AddAll (AddAll [] (diags st)) (ValidateNodes e (out st))
                           in case WriteTo e (out st) of
                                Inl err \<Rightarrow>
                                  Inr (None, Add ds SeverityLevelCritical
                                         (''failed to render Alloy config: '' @ err))
                              | Inr buf \<Rightarrow>
                                  if length buf = 0 then Inr (None, ds)
                                  else (case PrettyPrint e buf of
                                          (prettyByte, newDiags) \<Rightarrow>
                                            Inr (prettyByte, AddAll ds newDiags)))))))"

section \<open>Notions the properties are stated with\<close>

text \<open>
  A call of \<^verbatim>\<open>ConvertAndAppend\<close> is dispatched by a table when the converter called is
  the table's entry for the kind and type of the instance.
\<close>

definition dispatched :: "('c, 'p, 'f) converterTable \<Rightarrow> ('c, 'p, 'f) call \<Rightarrow> bool" where
  "dispatched table call =
     (case call of
        (InstanceID i k, conv, s, c) \<Rightarrow> table \<lparr>Kind = k, Type = idType i\<rparr> = Some conv)"

text \<open>
  What a list of calls does to the diagnostics and the file, one call after the other:
  the diagnostics each call returns are appended, the file is the one the call leaves.
\<close>

fun effects ::
  "('c, 'p, 'f) call list \<Rightarrow> Diagnostics \<times> 'f \<Rightarrow> Diagnostics \<times> 'f" where
  "effects [] acc = acc"
| "effects ((iid, conv, s, c) # calls) (ds, f) =
     (case ConvertAndAppend conv s iid c of (d, f') \<Rightarrow> effects calls (ds @ d, f'))"

text \<open>
  A list of calls is chained from a file when the first call is handed this file, every
  later call the file the call before it left, and every call the instance as the
  identity of its state.
\<close>

fun chained :: "'f \<Rightarrow> ('c, 'p, 'f) call list \<Rightarrow> bool" where
  "chained f [] = True"
| "chained f ((iid, conv, s, c) # calls) =
     (file' s = f \<and> componentID s = iid \<and>
      chained (snd (ConvertAndAppend conv s iid c)) calls)"

text \<open>
  From the progress \<open>st\<close> the calls \<open>new\<close> ran and led to \<open>st'\<close>: they were added to the
  record of calls, each was dispatched by the table, they are chained from the file of
  \<open>st\<close>, and the diagnostics and the file of \<open>st'\<close> are their effects on those of \<open>st\<close>.
\<close>

definition ran ::
  "('c, 'p, 'f) converterTable \<Rightarrow> ('c, 'p, 'f) progress \<Rightarrow> ('c, 'p, 'f) call list \<Rightarrow>
   ('c, 'p, 'f) progress \<Rightarrow> bool" where
  "ran table st new st' =
     (invoked st' = invoked st @ new \<and>
      list_all (dispatched table) new \<and>
      chained (out st) new \<and>
      (diags st', out st') = effects new (diags st, out st))"

text \<open>
  The instances one pass of the group loop converts, in order: the four component sets
  of \<^verbatim>\<open>AppendConfig\<close>.
\<close>

definition groupCalls :: "ID list \<Rightarrow> pipelineGroup \<Rightarrow> InstanceID list" where
  "groupCalls connectorIDs grp =
     map (\<lambda>i. InstanceID i KindReceiver) (filterIDs (group_Receivers grp) connectorIDs) @
     map (\<lambda>i. InstanceID i KindProcessor) (group_Processors grp) @
     map (\<lambda>i. InstanceID i KindExporter) (filterIDs (group_Exporters grp) connectorIDs) @
     map (\<lambda>i. InstanceID i KindConnector) connectorIDs"

text \<open>
  The receivers \<^verbatim>\<open>validateNoDuplicateReceivers\<close> visits, in order: the receivers of every
  group without the connectors.
\<close>

definition visitedReceivers :: "pipelineGroup list \<Rightarrow> ID list \<Rightarrow> ID list" where
  "visitedReceivers groups connectorIDs =
     concat (map (\<lambda>grp. filterIDs (group_Receivers grp) connectorIDs) groups)"

text \<open>
  The elements of a list that occur earlier in the list or in the set \<open>seen\<close>, in order:
  every occurrence of an element but its first.
\<close>

fun repeats :: "'a set \<Rightarrow> 'a list \<Rightarrow> 'a list" where
  "repeats seen [] = []"
| "repeats seen (x # xs) =
     (if x \<in> seen then x # repeats (insert x seen) xs else repeats (insert x seen) xs)"

section \<open>A concrete setting\<close>

text \<open>
  A small instance of the collaborators, on which the definitions are evaluated. The
  output file is the list of the emitted blocks and is rendered by concatenation; the
  pipelines of a configuration are given by their groups; a converter appends its block
  name to the file and returns fixed diagnostics; the keys of a map are enumerated in the
  order of the list \<open>order\<close>.
\<close>

definition sampleConverter ::
  "factory \<Rightarrow> string \<Rightarrow> Diagnostics \<Rightarrow> (unit, pipelineGroup list, string list) ComponentConverter" where
  "sampleConverter fty name ds =
     \<lparr>Factory = fty, InputComponentName = name,
      ConvertAndAppend = (\<lambda>st iid c. (ds, file' st @ [name]))\<rparr>"

definition sampleEnv ::
  "(unit, pipelineGroup list, string list) ComponentConverter list \<Rightarrow> ID list \<Rightarrow>
   (unit, pipelineGroup list) Config \<Rightarrow> (unit, pipelineGroup list, string list, string list) env" where
  "sampleEnv convs order config =
     \<lparr>converters = convs,
      createPipelineGroups = Inr,
      maps_Keys = (\<lambda>m. filter (\<lambda>i. m i \<noteq> None) order),
      AlloyComponentLabel = (\<lambda>st. ''default''),
      NewConfigProvider = Inr,
      Get = (\<lambda>r facts. Inr config),
      Validate = (\<lambda>c. None),
      NewFile = [],
      ValidateNodes = (\<lambda>f. []),
      WriteTo = (\<lambda>f. Inr (concat f)),
      PrettyPrint = (\<lambda>buf. (Some buf, []))\<rparr>"

definition sampleConverters :: "(unit, pipelineGroup list, string list) ComponentConverter list" where
  "sampleConverters =
     [sampleConverter (ReceiverFactory ''otlp'') ''r.otlp;'' [],
      sampleConverter (ReceiverFactory ''jaeger'') ''r.jaeger;'' [],
      sampleConverter (ExporterFactory ''otlp'') ''e.otlp;'' [],
      sampleConverter (ExporterFactory ''debug'') ''e.debug;'' [],
      sampleConverter (ConnectorFactory ''count'') ''c.count;'' [],
      sampleConverter (ConnectorFactory ''span'') ''c.span;'' []]"

text \<open>
  Two groups without a shared component: in the first, the connector \<^verbatim>\<open>count\<close> is the
  exporter of one pipeline and the receiver of another; the second has a receiver and an
  exporter of its own.
\<close>

definition bridgedConfig :: "(unit, pipelineGroup list) Config" where
  "bridgedConfig =
     \<lparr>Receivers = [ID ''otlp'' [] \<mapsto> (), ID ''jaeger'' [] \<mapsto> ()],
      Processors = Map.empty,
      Exporters = [ID ''otlp'' [] \<mapsto> (), ID ''debug'' [] \<mapsto> ()],
      Connectors = [ID ''count'' [] \<mapsto> ()],
      Extensions = Map.empty,
      Service = \<lparr>ServiceExtensions = [],
        ServicePipelines =
          [\<lparr>group_Receivers = [ID ''otlp'' [], ID ''count'' []], group_Processors = [],
            group_Exporters = [ID ''count'' [], ID ''otlp'' []]\<rparr>,
           \<lparr>group_Receivers = [ID ''jaeger'' []], group_Processors = [],
            group_Exporters = [ID ''debug'' []]\<rparr>]\<rparr>\<rparr>"


text \<open>One group whose two pipelines are bridged by two connectors.\<close>

definition twoConnectorConfig :: "(unit, pipelineGroup list) Config" where
  "twoConnectorConfig =
     \<lparr>Receivers = [ID ''otlp'' [] \<mapsto> ()],
      Processors = Map.empty,
      Exporters = [ID ''otlp'' [] \<mapsto> ()],
      Connectors = [ID ''count'' [] \<mapsto> (), ID ''span'' [] \<mapsto> ()],
      Extensions = Map.empty,
      Service = \<lparr>ServiceExtensions = [],
        ServicePipelines =
          [\<lparr>group_Receivers = [ID ''otlp'' [], ID ''count'' [], ID ''span'' []],
            group_Processors = [],
            group_Exporters = [ID ''count'' [], ID ''span'' [], ID ''otlp'' []]\<rparr>]\<rparr>\<rparr>"

text \<open>One pipeline from a receiver to an exporter.\<close>

definition plainConfig :: "(unit, pipelineGroup list) Config" where
  "plainConfig =
     \<lparr>Receivers = [ID ''otlp'' [] \<mapsto> ()],
      Processors = Map.empty,
      Exporters = [ID ''otlp'' [] \<mapsto> ()],
      Connectors = Map.empty,
      Extensions = Map.empty,
      Service = \<lparr>ServiceExtensions = [],
        ServicePipelines =
          [\<lparr>group_Receivers = [ID ''otlp'' []], group_Processors = [],
            group_Exporters = [ID ''otlp'' []]\<rparr>]\<rparr>\<rparr>"

text \<open>Converters of which the receiver's returns a critical diagnostic with its block.\<close>

definition strictConverters :: "(unit, pipelineGroup list, string list) ComponentConverter list" where
  "strictConverters =
     [sampleConverter (ReceiverFactory ''otlp'') ''r.otlp;''
        [\<lparr>Severity = SeverityLevelCritical, Summary = ''unsupported setting''\<rparr>],
      sampleConverter (ExporterFactory ''otlp'') ''e.otlp;'' []]"

text \<open>
  One pipeline from a receiver to an exporter, and the extension \<^verbatim>\<open>health\<close> of the
  service; the converters with one for this extension.
\<close>

definition monitoredConfig :: "(unit, pipelineGroup list) Config" where
  "monitoredConfig =
     \<lparr>Receivers = [ID ''otlp'' [] \<mapsto> ()],
      Processors = Map.empty,
      Exporters = [ID ''otlp'' [] \<mapsto> ()],
      Connectors = Map.empty,
      Extensions = [ID ''health'' [] \<mapsto> ()],
      Service = \<lparr>ServiceExtensions = [ID ''health'' []],
        ServicePipelines =
          [\<lparr>group_Receivers = [ID ''otlp'' []], group_Processors = [],
            group_Exporters = [ID ''otlp'' []]\<rparr>]\<rparr>\<rparr>"

definition monitoredConverters ::
  "(unit, pipelineGroup list, string list) ComponentConverter list" where
  "monitoredConverters =
     sampleConverter (ExtensionFactory ''health'') ''x.health;'' [] # sampleConverters"

text \<open>
  The setting in which the validation of the nodes and the pretty printer return a
  critical diagnostic each, besides the converter of the receiver.
\<close>

definition strictEnv ::
  "(unit, pipelineGroup list) Config \<Rightarrow>
   (unit, pipelineGroup list, string list, string list) env" where
  "strictEnv config =
     (sampleEnv strictConverters [] config)
       \<lparr>ValidateNodes :=
          (\<lambda>f. [\<lparr>Severity = SeverityLevelCritical, Summary = ''duplicate component label''\<rparr>]),
        PrettyPrint :=
          (\<lambda>buf. (Some buf, [\<lparr>Severity = SeverityLevelCritical, Summary = ''not printable''\<rparr>]))\<rparr>"

section \<open>Properties of filterIDs\<close>

lemma filterIDs_exists_iff: "filterIDs_exists rem s e = (e \<or> s \<in> set rem)"
  by (induction rem arbitrary: e) auto

lemma filterIDs_loop_filter:
  "filterIDs_loop ins rem res = res @ filter (\<lambda>x. x \<notin> set rem) ins"
  by (induction ins arbitrary: res) (simp_all add: filterIDs_exists_iff)

lemma filterIDs_filter: "filterIDs ins rem = filter (\<lambda>x. x \<notin> set rem) ins"
  by (simp add: filterIDs_def filterIDs_loop_filter)

text \<open>
  Claim C10. For all identity lists \<open>ins\<close> and \<open>rem\<close>, \<open>filterIDs ins rem\<close> is the list of
  the elements of \<open>ins\<close> that equal no element of \<open>rem\<close>, in the order of \<open>ins\<close> and with
  surviving duplicates kept (it is the order-preserving \<open>filter\<close>); it is empty exactly
  when every element of \<open>ins\<close> occurs in \<open>rem\<close>. The function reads its two arguments
  and writes only to its own result.
\<close>

theorem filterIDs_spec:
  "filterIDs ins rem = filter (\<lambda>x. x \<notin> set rem) ins \<and>
   (filterIDs ins rem = []) = (set ins \<subseteq> set rem) \<and>
   count_list (filterIDs ins rem) x = (if x \<in> set rem then 0 else count_list ins x)"
proof -
  have eq: "filterIDs ins rem = filter (\<lambda>x. x \<notin> set rem) ins"
    by (rule filterIDs_filter)
  have empty: "(filter (\<lambda>x. x \<notin> set rem) ins = []) = (set ins \<subseteq> set rem)"
    by (auto simp: filter_empty_conv)
  have cnt: "count_list (filter (\<lambda>x. x \<notin> set rem) ins) x =
      (if x \<in> set rem then 0 else count_list ins x)"
    by (induction ins) auto
  show ?thesis using eq empty cnt by simp
qed

section \<open>The converter table: the first converter that declares a key holds it\<close>

lemma registerKinds_lookup:
  "registerKinds conv kinds table k =
     (case table k of Some c \<Rightarrow> Some c
      | None \<Rightarrow> if Kind k \<in> set kinds \<and> Type k = factoryType (Factory conv)
                then Some conv else None)"
proof (induction kinds arbitrary: table)
  case Nil
  then show ?case by (simp split: option.split)
next
  case (Cons kind kinds)
  have key: "(\<lparr>Kind = kind, Type = factoryType (Factory conv)\<rparr> = k) =
      (Kind k = kind \<and> Type k = factoryType (Factory conv))"
    by (cases k) auto
  show ?case
    using key by (auto simp: Cons.IH split: option.split)
qed

lemma buildConverterTable_loop_lookup:
  "buildConverterTable_loop cs table k =
     (case table k of Some c \<Rightarrow> Some c | None \<Rightarrow> find (\<lambda>c. declares c k) cs)"
  by (induction cs arbitrary: table)
     (auto simp: registerKinds_lookup declares_def split: option.split)

lemma find_append_case:
  "find P (xs @ ys) = (case find P xs of Some x \<Rightarrow> Some x | None \<Rightarrow> find P ys)"
  by (induction xs) auto

lemma buildConverterTable_find:
  "buildConverterTable builtins extraConverters k =
     find (\<lambda>c. declares c k) (extraConverters @ builtins)"
  by (simp add: buildConverterTable_def buildConverterTable_loop_lookup)

section \<open>Which conversions the loops run\<close>

lemma effects_append: "effects (a @ b) acc = effects b (effects a acc)"
proof (induction a arbitrary: acc)
  case Nil
  then show ?case by simp
next
  case (Cons call a)
  obtain iid conv s c where call: "call = (iid, conv, s, c)" by (cases call) auto
  obtain ds f where acc: "acc = (ds, f)" by (cases acc) auto
  show ?case using Cons.IH by (simp add: call acc split: prod.split)
qed

lemma effects_file: "snd (effects a (ds, f)) = snd (effects a (ds', f))"
proof (induction a arbitrary: ds ds' f)
  case Nil
  then show ?case by simp
next
  case (Cons call a)
  obtain iid conv s c where call: "call = (iid, conv, s, c)" by (cases call) auto
  show ?case using Cons.IH by (simp add: call split: prod.split)
qed

lemma chained_append:
  "chained f (a @ b) = (chained f a \<and> chained (snd (effects a (ds, f))) b)"
proof (induction a arbitrary: f ds)
  case Nil
  then show ?case by simp
next
  case (Cons call a)
  obtain iid conv s c where call: "call = (iid, conv, s, c)" by (cases call) auto
  obtain d f' where res: "ConvertAndAppend conv s iid c = (d, f')"
    by (cases "ConvertAndAppend conv s iid c") auto
  show ?case using Cons.IH[of f' "ds @ d"] by (simp add: call res)
qed

lemma ran_none: "ran table st [] st"
  by (simp add: ran_def)

lemma ran_then:
  assumes "ran table st a st1" and "ran table st1 b st'"
  shows "ran table st (a @ b) st'"
proof -
  from assms(1) have eff1: "(diags st1, out st1) = effects a (diags st, out st)"
    by (simp add: ran_def)
  then have file1: "out st1 = snd (effects a (diags st, out st))"
    by (metis snd_conv)
  have "chained (out st) (a @ b)"
    using assms file1 chained_append[of "out st" a b "diags st"] by (simp add: ran_def)
  moreover have "(diags st', out st') = effects (a @ b) (diags st, out st)"
    using assms(2) eff1 by (simp add: ran_def effects_append)
  ultimately show ?thesis using assms by (simp add: ran_def)
qed

lemma convertIDs_ran:
  "convertIDs config labelPrefix table grp kind configLookup ids st = Inr st' \<Longrightarrow>
   \<exists>new. ran table st new st' \<and> map fst new = map (\<lambda>i. InstanceID i kind) ids"
proof (induction ids arbitrary: st)
  case Nil
  then show ?case using ran_none[of table st] by auto
next
  case (Cons i ids)
  let ?state = "\<lparr>cfg = config, file' = out st, group = grp,
      converterLookup = viewTable table, extensionLookup = extensionTable st,
      componentConfig = ConfigEntry (configLookup i), componentID = NewInstanceID i kind,
      componentLabelPrefix = labelPrefix\<rparr>"
  let ?call = "\<lambda>conv. (NewInstanceID i kind, conv, ?state, configLookup i)"
  from Cons.prems obtain conv d f where
    look: "table \<lparr>Kind = kind, Type = idType i\<rparr> = Some conv" and
    res: "ConvertAndAppend conv ?state (NewInstanceID i kind) (configLookup i) = (d, f)" and
    rest: "convertIDs config labelPrefix table grp kind configLookup ids
             (st\<lparr>diags := AddAll (diags st) d, out := f,
                 invoked := invoked st @ [?call conv]\<rparr>) = Inr st'"
    by (auto simp: Let_def split: option.splits prod.splits)
  let ?st1 = "st\<lparr>diags := AddAll (diags st) d, out := f, invoked := invoked st @ [?call conv]\<rparr>"
  have step: "ran table st [?call conv] ?st1"
    using look res by (simp add: ran_def dispatched_def NewInstanceID_def AddAll_def)
  from Cons.IH[OF rest] obtain new where
    new: "ran table ?st1 new st'" and ids: "map fst new = map (\<lambda>i. InstanceID i kind) ids"
    by blast
  from ran_then[OF step new] ids show ?case
    by (intro exI[of _ "?call conv # new"]) (simp add: NewInstanceID_def)
qed

lemma convertSets_ran:
  "convertSets config labelPrefix table grp sets st = Inr st' \<Longrightarrow>
   \<exists>new. ran table st new st' \<and>
     map fst new = concat (map (\<lambda>(kind, ids, lk). map (\<lambda>i. InstanceID i kind) ids) sets)"
proof (induction sets arbitrary: st)
  case Nil
  then show ?case using ran_none[of table st] by auto
next
  case (Cons s sets)
  obtain kind ids lk where s: "s = (kind, ids, lk)" by (cases s) auto
  from Cons.prems s obtain st1 where
    a: "convertIDs config labelPrefix table grp kind lk ids st = Inr st1" and
    b: "convertSets config labelPrefix table grp sets st1 = Inr st'"
    by (auto split: sum.splits)
  from convertIDs_ran[OF a] obtain n1 where
    n1: "ran table st n1 st1" "map fst n1 = map (\<lambda>i. InstanceID i kind) ids" by blast
  from Cons.IH[OF b] obtain n2 where
    n2: "ran table st1 n2 st'"
      "map fst n2 = concat (map (\<lambda>(kind, ids, lk). map (\<lambda>i. InstanceID i kind) ids) sets)"
    by blast
  from ran_then[OF n1(1) n2(1)] n1(2) n2(2) s show ?case
    by (intro exI[of _ "n1 @ n2"]) simp
qed

lemma convertGroups_ran:
  "convertGroups config labelPrefix table connectorIDs groups st = Inr st' \<Longrightarrow>
   \<exists>new. ran table st new st' \<and>
     map fst new = concat (map (groupCalls connectorIDs) groups)"
proof (induction groups arbitrary: st)
  case Nil
  then show ?case using ran_none[of table st] by auto
next
  case (Cons g groups)
  from Cons.prems obtain st1 where
    a: "convertSets config labelPrefix table g (componentSets config connectorIDs g) st = Inr st1" and
    b: "convertGroups config labelPrefix table connectorIDs groups st1 = Inr st'"
    by (auto split: sum.splits)
  from convertSets_ran[OF a] obtain n1 where
    n1: "ran table st n1 st1" "map fst n1 = groupCalls connectorIDs g"
    by (auto simp: componentSets_def groupCalls_def)
  from Cons.IH[OF b] obtain n2 where
    n2: "ran table st1 n2 st'" "map fst n2 = concat (map (groupCalls connectorIDs) groups)"
    by blast
  from ran_then[OF n1(1) n2(1)] n1(2) n2(2) show ?case
    by (intro exI[of _ "n1 @ n2"]) simp
qed

lemma convertExtensions_ran:
  "convertExtensions e config labelPrefix table exts st = Inr st' \<Longrightarrow>
   \<exists>new. ran table st new st' \<and> map fst new = map (\<lambda>i. InstanceID i KindExtension) exts"
proof (induction exts arbitrary: st)
  case Nil
  then show ?case using ran_none[of table st] by auto
next
  case (Cons i ids)
  let ?state = "\<lparr>cfg = config, file' = out st,
      group = \<lparr>group_Receivers = [], group_Processors = [], group_Exporters = []\<rparr>,
      converterLookup = viewTable table, extensionLookup = Map.empty,
      componentConfig = ConfigMap (Extensions config),
      componentID = NewInstanceID i KindExtension, componentLabelPrefix = labelPrefix\<rparr>"
  let ?call = "\<lambda>conv. (NewInstanceID i KindExtension, conv, ?state, Extensions config i)"
  from Cons.prems obtain conv d f l where
    look: "table \<lparr>Kind = KindExtension, Type = idType i\<rparr> = Some conv" and
    res: "ConvertAndAppend conv ?state (NewInstanceID i KindExtension) (Extensions config i) = (d, f)" and
    rest: "convertExtensions e config labelPrefix table ids
             (st\<lparr>diags := AddAll (diags st) d, out := f,
                 extensionTable := (extensionTable st)(i \<mapsto> l),
                 invoked := invoked st @ [?call conv]\<rparr>) = Inr st'"
    by (auto simp: Let_def split: option.splits prod.splits)
  let ?st1 = "st\<lparr>diags := AddAll (diags st) d, out := f,
      extensionTable := (extensionTable st)(i \<mapsto> l), invoked := invoked st @ [?call conv]\<rparr>"
  have step: "ran table st [?call conv] ?st1"
    using look res by (simp add: ran_def dispatched_def NewInstanceID_def AddAll_def)
  from Cons.IH[OF rest] obtain new where
    new: "ran table ?st1 new st'"
    and ids: "map fst new = map (\<lambda>i. InstanceID i KindExtension) ids"
    by blast
  from ran_then[OF step new] ids show ?case
    by (intro exI[of _ "?call conv # new"]) (simp add: NewInstanceID_def)
qed

section \<open>The diagnostics of the duplicate check\<close>

lemma repeats_append: "repeats seen (xs @ ys) = repeats seen xs @ repeats (seen \<union> set xs) ys"
  by (induction xs arbitrary: seen) auto




lemma repeats_empty_iff: "(repeats seen xs = []) = (distinct xs \<and> seen \<inter> set xs = {})"
  by (induction xs arbitrary: seen) auto




lemma validateReceivers_repeats:
  "validateReceivers rs (ds, used) = (ds @ map duplicateReceiver (repeats used rs), used \<union> set rs)"
  by (induction rs arbitrary: ds used) auto

lemma validateGroups_repeats:
  "validateGroups groups connectorIDs (ds, used) =
     (ds @ map duplicateReceiver (repeats used (visitedReceivers groups connectorIDs)),
      used \<union> set (visitedReceivers groups connectorIDs))"
  by (induction groups arbitrary: ds used)
     (auto simp: visitedReceivers_def validateReceivers_repeats repeats_append Un_assoc)

lemma validateNoDuplicateReceivers_repeats:
  "validateNoDuplicateReceivers groups connectorIDs =
     map duplicateReceiver (repeats {} (visitedReceivers groups connectorIDs))"
  by (simp add: validateNoDuplicateReceivers_def validateGroups_repeats)





text \<open>
  The quoting of a receiver name with a double quote in it, \<^verbatim>\<open>otlp/a"b\<close>: the quote is
  escaped.
\<close>

lemma fmt_q_escapes:
  "fmt_q (idString (ID ''otlp'' [CHR ''a'', CHR 0x22, CHR ''b''])) =
     [CHR 0x22] @ ''otlp/a'' @ [CHR 0x5C, CHR 0x22] @ ''b'' @ [CHR 0x22]"
  by (simp add: fmt_q_def quoteByte_def idString_def)

section \<open>AppendConfig as a whole\<close>

lemma AppendConfig_rejected:
  assumes "createPipelineGroups e (ServicePipelines (Service config)) = Inr groups"
    and "validateNoDuplicateReceivers groups (maps_Keys e (Connectors config)) \<noteq> []"
  shows "AppendConfig e file config labelPrefix extraConverters =
     Inr \<lparr>diags = validateNoDuplicateReceivers groups (maps_Keys e (Connectors config)),
          out = file, extensionTable = Map.empty, invoked = []\<rparr>"
  using assms by (simp add: AppendConfig_def Let_def AddAll_def)

lemma AppendConfig_ran:
  assumes run: "AppendConfig e file config labelPrefix extraConverters = Inr st"
    and groups: "createPipelineGroups e (ServicePipelines (Service config)) = Inr groups"
    and accepted: "validateNoDuplicateReceivers groups (maps_Keys e (Connectors config)) = []"
  shows "ran (buildConverterTable (converters e) extraConverters)
           \<lparr>diags = [], out = file, extensionTable = Map.empty, invoked = []\<rparr>
           (invoked st) st \<and>
         map fst (invoked st) =
           map (\<lambda>i. InstanceID i KindExtension) (ServiceExtensions (Service config)) @
           concat (map (groupCalls (maps_Keys e (Connectors config))) groups)"
proof -
  let ?conn = "maps_Keys e (Connectors config)"
  let ?table = "buildConverterTable (converters e) extraConverters"
  let ?st0 = "\<lparr>diags = [], out = file, extensionTable = Map.empty, invoked = []\<rparr>
      :: ('a, 'b, 'c) progress"
  from run groups accepted obtain st1 where
    a: "convertExtensions e config labelPrefix ?table (ServiceExtensions (Service config)) ?st0 = Inr st1" and
    b: "convertGroups config labelPrefix ?table ?conn groups st1 = Inr st"
    by (auto simp: AppendConfig_def Let_def split: sum.splits)
  from convertExtensions_ran[OF a] obtain n1 where
    n1: "ran ?table ?st0 n1 st1"
      "map fst n1 = map (\<lambda>i. InstanceID i KindExtension) (ServiceExtensions (Service config))"
    by blast
  from convertGroups_ran[OF b] obtain n2 where
    n2: "ran ?table st1 n2 st" "map fst n2 = concat (map (groupCalls ?conn) groups)"
    by blast
  have all: "ran ?table ?st0 (n1 @ n2) st"
    using n1(1) n2(1) by (rule ran_then)
  then have "invoked st = n1 @ n2" by (simp add: ran_def)
  with all n1(2) n2(2) show ?thesis by simp
qed

lemma AppendConfig_invoked:
  assumes run: "AppendConfig e file config labelPrefix extraConverters = Inr st"
    and groups: "createPipelineGroups e (ServicePipelines (Service config)) = Inr groups"
  shows "map fst (invoked st) =
      (if validateNoDuplicateReceivers groups (maps_Keys e (Connectors config)) = [] then
         map (\<lambda>i. InstanceID i KindExtension) (ServiceExtensions (Service config)) @
         concat (map (groupCalls (maps_Keys e (Connectors config))) groups)
       else [])"
proof (cases "validateNoDuplicateReceivers groups (maps_Keys e (Connectors config)) = []")
  case False
  then show ?thesis
    using run AppendConfig_rejected[OF groups False, of "file" labelPrefix extraConverters]
    by auto
next
  case True
  with AppendConfig_ran[OF run groups True] show ?thesis by simp
qed

lemma AppendConfig_dispatched:
  assumes run: "AppendConfig e file config labelPrefix extraConverters = Inr st"
  shows "list_all (dispatched (buildConverterTable (converters e) extraConverters)) (invoked st)"
proof (cases "createPipelineGroups e (ServicePipelines (Service config))")
  case (Inl err)
  with run show ?thesis by (auto simp: AppendConfig_def)
next
  case (Inr groups)
  show ?thesis
  proof (cases "validateNoDuplicateReceivers groups (maps_Keys e (Connectors config)) = []")
    case False
    then show ?thesis
      using run AppendConfig_rejected[OF Inr False, of "file" labelPrefix extraConverters]
      by auto
  next
    case True
    from AppendConfig_ran[OF run Inr True]
    have "ran (buildConverterTable (converters e) extraConverters)
           \<lparr>diags = [], out = file, extensionTable = Map.empty, invoked = []\<rparr>
           (invoked st) st"
      by blast
    then show ?thesis by (simp add: ran_def)
  qed
qed

section \<open>Counting conversions\<close>

lemma count_list_concat:
  "count_list (concat xss) x = sum_list (map (\<lambda>xs. count_list xs x) xss)"
  by (induction xss) simp_all

lemma count_list_instances:
  "count_list (map (\<lambda>i. InstanceID i k) xs) (InstanceID c k') =
     (if k = k' then count_list xs c else 0)"
  by (induction xs) auto

lemma count_list_distinct:
  "distinct xs \<Longrightarrow> count_list xs x = (if x \<in> set xs then 1 else 0)"
  by (induction xs) auto

lemma groupCalls_count_receiver:
  "count_list (groupCalls conn g) (InstanceID r KindReceiver) =
     count_list (filterIDs (group_Receivers g) conn) r"
  by (simp add: groupCalls_def count_list_instances)

lemma groupCalls_count_connector:
  "count_list (groupCalls conn g) (InstanceID c KindConnector) = count_list conn c"
  by (simp add: groupCalls_def count_list_instances)

lemma groupCalls_count_exporter:
  "count_list (groupCalls conn g) (InstanceID x KindExporter) =
     count_list (filterIDs (group_Exporters g) conn) x"
  by (simp add: groupCalls_def count_list_instances)

lemma schedule_count_receiver:
  "count_list (concat (map (groupCalls conn) groups)) (InstanceID r KindReceiver) =
     count_list (visitedReceivers groups conn) r"
  by (induction groups) (simp_all add: visitedReceivers_def groupCalls_count_receiver)

lemma schedule_count_connector:
  "count_list (concat (map (groupCalls conn) groups)) (InstanceID c KindConnector) =
     length groups * count_list conn c"
  by (induction groups) (simp_all add: groupCalls_count_connector)

lemma schedule_count_exporter:
  "count_list (concat (map (groupCalls conn) groups)) (InstanceID x KindExporter) =
     sum_list (map (\<lambda>g. count_list (filterIDs (group_Exporters g) conn) x) groups)"
  by (induction groups) (simp_all add: groupCalls_count_exporter)

lemma filterIDs_count_removed: "c \<in> set conn \<Longrightarrow> count_list (filterIDs xs conn) c = 0"
  by (simp add: filterIDs_filter count_list_0_iff)

text \<open>
  When the duplicate check passes and \<^verbatim>\<open>AppendConfig\<close> returns, a receiver is converted
  at most once, a connector is not converted as a receiver or as an exporter, and the
  connector pass converts every connector of the configuration once in every group.
\<close>

lemma conversion_counts:
  assumes run: "AppendConfig e file config labelPrefix extraConverters = Inr st"
    and groups: "createPipelineGroups e (ServicePipelines (Service config)) = Inr groups"
    and keys: "enumerates (Connectors config) (maps_Keys e (Connectors config))"
    and accepted: "validateNoDuplicateReceivers groups (maps_Keys e (Connectors config)) = []"
  shows "map fst (invoked st) =
       map (\<lambda>i. InstanceID i KindExtension) (ServiceExtensions (Service config)) @
       concat (map (groupCalls (maps_Keys e (Connectors config))) groups) \<and>
     count_list (map fst (invoked st)) (InstanceID i KindReceiver) \<le> 1 \<and>
     count_list (map fst (invoked st)) (InstanceID i KindConnector) =
       (if Connectors config i = None then 0 else length groups) \<and>
     (Connectors config i \<noteq> None \<longrightarrow>
        count_list (map fst (invoked st)) (InstanceID i KindReceiver) = 0 \<and>
        count_list (map fst (invoked st)) (InstanceID i KindExporter) = 0)"
proof -
  let ?conn = "maps_Keys e (Connectors config)"
  let ?calls = "map fst (invoked st)"
  have sched: "?calls =
       map (\<lambda>i. InstanceID i KindExtension) (ServiceExtensions (Service config)) @
       concat (map (groupCalls ?conn) groups)"
    using AppendConfig_invoked(1)[OF run groups] accepted by simp
  have dist: "distinct (visitedReceivers groups ?conn)"
    using accepted by (simp add: validateNoDuplicateReceivers_repeats repeats_empty_iff)
  have recv: "count_list ?calls (InstanceID i KindReceiver) =
      count_list (visitedReceivers groups ?conn) i"
    by (simp add: sched count_list_instances schedule_count_receiver)
  have r1: "count_list ?calls (InstanceID i KindReceiver) \<le> 1"
    using recv count_list_distinct[OF dist, of i] by simp
  have mem: "(i \<in> set ?conn) = (Connectors config i \<noteq> None)"
    using keys by (auto simp: enumerates_def)
  have cnt: "count_list ?conn i = (if Connectors config i = None then 0 else 1)"
    using keys mem count_list_distinct[of ?conn i] by (simp add: enumerates_def)
  have c1: "count_list ?calls (InstanceID i KindConnector) =
      (if Connectors config i = None then 0 else length groups)"
    by (simp add: sched count_list_instances schedule_count_connector cnt)
  have c2: "count_list ?calls (InstanceID i KindReceiver) = 0"
    if "Connectors config i \<noteq> None"
  proof -
    from that mem have "i \<in> set ?conn" by simp
    then have "i \<notin> set (visitedReceivers groups ?conn)"
      by (auto simp: visitedReceivers_def filterIDs_filter)
    then show ?thesis using recv by (simp add: count_list_0_iff)
  qed
  have c3: "count_list ?calls (InstanceID i KindExporter) = 0"
    if "Connectors config i \<noteq> None"
  proof -
    from that mem have "i \<in> set ?conn" by simp
    then have "count_list (filterIDs (group_Exporters g) ?conn) i = 0"
      for g :: pipelineGroup
      by (rule filterIDs_count_removed)
    then show ?thesis
      by (simp add: sched count_list_instances schedule_count_exporter)
  qed
  show ?thesis using sched r1 c1 c2 c3 by blast
qed

section \<open>The converter table\<close>

text \<open>
  Claim C9. A converter whose factory is a connector factory of type \<open>t\<close> declares the
  three keys (connector, \<open>t\<close>), (exporter, \<open>t\<close>) and (receiver, \<open>t\<close>), and the table
  built from the overrides followed by the built-in converters holds it under each of
  the three, unless a converter earlier in that list declares the key: then the key is
  held by the first such converter.
\<close>

theorem connector_three_keys:
  assumes "extraConverters @ builtins = pre @ conv # post"
    and "Factory conv = ConnectorFactory t"
    and "kind \<in> {KindConnector, KindExporter, KindReceiver}"
  shows "declares conv \<lparr>Kind = kind, Type = t\<rparr> \<and>
     buildConverterTable builtins extraConverters \<lparr>Kind = kind, Type = t\<rparr> =
       (case find (\<lambda>c. declares c \<lparr>Kind = kind, Type = t\<rparr>) pre of
          Some c \<Rightarrow> Some c | None \<Rightarrow> Some conv)"
proof -
  have d: "declares conv \<lparr>Kind = kind, Type = t\<rparr>"
    using assms(2,3) by (auto simp: declares_def)
  then show ?thesis
    using assms(1) by (simp add: buildConverterTable_find find_append_case split: option.split)
qed

theorem connector_three_keys_witness:
  "declares (sampleConverter (ConnectorFactory ''count'') ''c.count;'' [])
     \<lparr>Kind = KindReceiver, Type = ''count''\<rparr> \<and>
   buildConverterTable sampleConverters [] \<lparr>Kind = KindReceiver, Type = ''count''\<rparr> =
     Some (sampleConverter (ConnectorFactory ''count'') ''c.count;'' [])"
proof -
  let ?conv = "sampleConverter (ConnectorFactory ''count'') ''c.count;'' []"
  have split: "[] @ sampleConverters =
      [sampleConverter (ReceiverFactory ''otlp'') ''r.otlp;'' [],
       sampleConverter (ReceiverFactory ''jaeger'') ''r.jaeger;'' [],
       sampleConverter (ExporterFactory ''otlp'') ''e.otlp;'' [],
       sampleConverter (ExporterFactory ''debug'') ''e.debug;'' []] @
      ?conv # [sampleConverter (ConnectorFactory ''span'') ''c.span;'' []]"
    by (simp add: sampleConverters_def)
  have shape: "Factory ?conv = ConnectorFactory ''count''"
    by (simp add: sampleConverter_def)
  have kind: "KindReceiver \<in> {KindConnector, KindExporter, KindReceiver}"
    by simp
  from connector_three_keys[OF split shape kind] show ?thesis
    by (simp add: declares_def sampleConverter_def)
qed

text \<open>
  Claim C5. When an override declares a key, the table holds under that key the first
  override that declares it, whatever the built-in converters declare. In every call
  of \<^verbatim>\<open>AppendConfig\<close> that returns, a conversion for an instance of that kind and type
  calls this override, so that no built-in converter is called for the key; and when the
  grouping succeeded and the duplicate check passed, every extension of the service and
  every member of every group is converted, in this order, those of the key by a call
  of this override, and the diagnostics and the
  file that \<^verbatim>\<open>AppendConfig\<close> returns are those the calls made produced one after the
  other, each call starting from the file the call before it left.
\<close>

theorem override_precedence:
  assumes "ov \<in> set extraConverters" and "declares ov key"
  shows "\<exists>c. find (\<lambda>c. declares c key) extraConverters = Some c \<and>
     c \<in> set extraConverters \<and>
     buildConverterTable (converters e) extraConverters key = Some c \<and>
     (\<forall>st. AppendConfig e file config labelPrefix extraConverters = Inr st \<longrightarrow>
        (\<forall>i conv s cf.
           (InstanceID i (Kind key), conv, s, cf) \<in> set (invoked st) \<and> idType i = Type key
           \<longrightarrow> conv = c) \<and>
        (\<forall>groups.
           createPipelineGroups e (ServicePipelines (Service config)) = Inr groups \<and>
           validateNoDuplicateReceivers groups (maps_Keys e (Connectors config)) = [] \<longrightarrow>
           map fst (invoked st) =
             map (\<lambda>i. InstanceID i KindExtension) (ServiceExtensions (Service config)) @
             concat (map (groupCalls (maps_Keys e (Connectors config))) groups) \<and>
           (\<forall>i. InstanceID i (Kind key) \<in> set (map fst (invoked st)) \<and> idType i = Type key
              \<longrightarrow> (\<exists>s cf. (InstanceID i (Kind key), c, s, cf) \<in> set (invoked st))) \<and>
           chained file (invoked st) \<and>
           (diags st, out st) = effects (invoked st) ([], file)))"
proof -
  let ?table = "buildConverterTable (converters e) extraConverters"
  from assms obtain c where c: "find (\<lambda>c. declares c key) extraConverters = Some c"
    by (cases "find (\<lambda>c. declares c key) extraConverters") (auto simp: find_None_iff)
  then have mem: "c \<in> set extraConverters"
    by (auto simp: find_Some_iff)
  have tab: "?table key = Some c"
    using c by (simp add: buildConverterTable_find find_append_case)
  have safe: "conv = c"
    if run: "AppendConfig e file config labelPrefix extraConverters = Inr st"
      and call: "(InstanceID i (Kind key), conv, s, cf) \<in> set (invoked st)"
      and ty: "idType i = Type key" for st i conv s cf
  proof -
    have "dispatched ?table (InstanceID i (Kind key), conv, s, cf)"
      using AppendConfig_dispatched[OF run] call by (simp add: list_all_iff)
    then have "?table \<lparr>Kind = Kind key, Type = idType i\<rparr> = Some conv"
      by (simp add: dispatched_def)
    moreover have "\<lparr>Kind = Kind key, Type = Type key\<rparr> = key"
      by (cases key) simp
    ultimately show ?thesis using ty tab by simp
  qed
  have live: "map fst (invoked st) =
        map (\<lambda>i. InstanceID i KindExtension) (ServiceExtensions (Service config)) @
        concat (map (groupCalls (maps_Keys e (Connectors config))) groups) \<and>
      chained file (invoked st) \<and>
      (diags st, out st) = effects (invoked st) ([], file)"
    if run: "AppendConfig e file config labelPrefix extraConverters = Inr st"
      and groups: "createPipelineGroups e (ServicePipelines (Service config)) = Inr groups"
      and accepted: "validateNoDuplicateReceivers groups (maps_Keys e (Connectors config)) = []"
    for st groups
    using AppendConfig_ran[OF run groups accepted] by (simp add: ran_def)
  have called: "\<exists>s cf. (InstanceID i (Kind key), c, s, cf) \<in> set (invoked st)"
    if run: "AppendConfig e file config labelPrefix extraConverters = Inr st"
      and sched: "InstanceID i (Kind key) \<in> set (map fst (invoked st))"
      and ty: "idType i = Type key" for st i
  proof -
    from sched obtain conv s cf where
      call: "(InstanceID i (Kind key), conv, s, cf) \<in> set (invoked st)"
      by auto
    from safe[OF run call ty] call show ?thesis by blast
  qed
  show ?thesis
  proof (intro exI[of _ c] conjI allI impI)
    show "find (\<lambda>c. declares c key) extraConverters = Some c" by (rule c)
    show "c \<in> set extraConverters" by (rule mem)
    show "?table key = Some c" by (rule tab)
  next
    fix st i conv s cf
    assume "AppendConfig e file config labelPrefix extraConverters = Inr st"
      and "(InstanceID i (Kind key), conv, s, cf) \<in> set (invoked st) \<and> idType i = Type key"
    then show "conv = c" using safe by blast
  next
    fix st groups
    assume run: "AppendConfig e file config labelPrefix extraConverters = Inr st"
      and ok: "createPipelineGroups e (ServicePipelines (Service config)) = Inr groups \<and>
        validateNoDuplicateReceivers groups (maps_Keys e (Connectors config)) = []"
    from live[OF run] ok
    show "map fst (invoked st) =
        map (\<lambda>i. InstanceID i KindExtension) (ServiceExtensions (Service config)) @
        concat (map (groupCalls (maps_Keys e (Connectors config))) groups)"
      and "chained file (invoked st)"
      and "(diags st, out st) = effects (invoked st) ([], file)"
      by blast+
  next
    fix st groups i
    assume run: "AppendConfig e file config labelPrefix extraConverters = Inr st"
      and "InstanceID i (Kind key) \<in> set (map fst (invoked st)) \<and> idType i = Type key"
    then show "\<exists>s cf. (InstanceID i (Kind key), c, s, cf) \<in> set (invoked st)"
      using called by blast
  qed
qed

text \<open>
  The override for the receiver \<^verbatim>\<open>otlp\<close> returns a warning with its block. The extension
  is converted first, the override is called for the receiver in place of the built-in
  converter, and its warning and its block are in what \<^verbatim>\<open>AppendConfig\<close> returns.
\<close>

theorem override_precedence_witness:
  "buildConverterTable monitoredConverters
     [sampleConverter (ReceiverFactory ''otlp'') ''custom.otlp;''
        [\<lparr>Severity = SeverityLevelWarn, Summary = ''custom''\<rparr>]]
     \<lparr>Kind = KindReceiver, Type = ''otlp''\<rparr> =
     Some (sampleConverter (ReceiverFactory ''otlp'') ''custom.otlp;''
        [\<lparr>Severity = SeverityLevelWarn, Summary = ''custom''\<rparr>]) \<and>
   (case AppendConfig (sampleEnv monitoredConverters [] monitoredConfig) [] monitoredConfig []
           [sampleConverter (ReceiverFactory ''otlp'') ''custom.otlp;''
              [\<lparr>Severity = SeverityLevelWarn, Summary = ''custom''\<rparr>]] of
      Inl p \<Rightarrow> None
    | Inr st \<Rightarrow>
        Some (map (\<lambda>call. (fst call, InputComponentName (fst (snd call)))) (invoked st),
              effects (invoked st) ([], []), diags st, out st)) =
   Some ([(InstanceID (ID ''health'' []) KindExtension, ''x.health;''),
          (InstanceID (ID ''otlp'' []) KindReceiver, ''custom.otlp;''),
          (InstanceID (ID ''otlp'' []) KindExporter, ''e.otlp;'')],
         ([\<lparr>Severity = SeverityLevelWarn, Summary = ''custom''\<rparr>],
          [''x.health;'', ''custom.otlp;'', ''e.otlp;'']),
         [\<lparr>Severity = SeverityLevelWarn, Summary = ''custom''\<rparr>],
         [''x.health;'', ''custom.otlp;'', ''e.otlp;''])"
proof -
  let ?ov = "sampleConverter (ReceiverFactory ''otlp'') ''custom.otlp;''
      [\<lparr>Severity = SeverityLevelWarn, Summary = ''custom''\<rparr>]"
  let ?key = "\<lparr>Kind = KindReceiver, Type = ''otlp''\<rparr>"
  let ?e = "sampleEnv monitoredConverters [] monitoredConfig"
  let ?groups = "ServicePipelines (Service monitoredConfig)"
  have mem: "?ov \<in> set [?ov]" by simp
  have dec: "declares ?ov ?key" by (simp add: declares_def sampleConverter_def)
  have first: "find (\<lambda>c. declares c ?key) [?ov] = Some ?ov" using dec by simp
  have "\<exists>st. AppendConfig ?e [] monitoredConfig [] [?ov] = Inr st \<and>
      map (\<lambda>call. (fst call, InputComponentName (fst (snd call)))) (invoked st) =
        [(InstanceID (ID ''health'' []) KindExtension, ''x.health;''),
         (InstanceID (ID ''otlp'' []) KindReceiver, ''custom.otlp;''),
         (InstanceID (ID ''otlp'' []) KindExporter, ''e.otlp;'')] \<and>
      diags st = [\<lparr>Severity = SeverityLevelWarn, Summary = ''custom''\<rparr>] \<and>
      out st = [''x.health;'', ''custom.otlp;'', ''e.otlp;'']"
    by (simp add: AppendConfig_def Let_def sampleEnv_def monitoredConfig_def
        validateNoDuplicateReceivers_def filterIDs_def buildConverterTable_find
        monitoredConverters_def sampleConverters_def declares_def sampleConverter_def
        componentSets_def NewInstanceID_def AddAll_def)
  then obtain st where all:
    "AppendConfig ?e [] monitoredConfig [] [?ov] = Inr st \<and>
      map (\<lambda>call. (fst call, InputComponentName (fst (snd call)))) (invoked st) =
        [(InstanceID (ID ''health'' []) KindExtension, ''x.health;''),
         (InstanceID (ID ''otlp'' []) KindReceiver, ''custom.otlp;''),
         (InstanceID (ID ''otlp'' []) KindExporter, ''e.otlp;'')] \<and>
      diags st = [\<lparr>Severity = SeverityLevelWarn, Summary = ''custom''\<rparr>] \<and>
      out st = [''x.health;'', ''custom.otlp;'', ''e.otlp;'']" ..
  from all have run: "AppendConfig ?e [] monitoredConfig [] [?ov] = Inr st"
    by (rule conjunct1)
  from all have names:
    "map (\<lambda>call. (fst call, InputComponentName (fst (snd call)))) (invoked st) =
        [(InstanceID (ID ''health'' []) KindExtension, ''x.health;''),
         (InstanceID (ID ''otlp'' []) KindReceiver, ''custom.otlp;''),
         (InstanceID (ID ''otlp'' []) KindExporter, ''e.otlp;'')]"
    by (rule conjunct1[OF conjunct2])
  from all have ds: "diags st = [\<lparr>Severity = SeverityLevelWarn, Summary = ''custom''\<rparr>]"
    by (rule conjunct1[OF conjunct2[OF conjunct2]])
  from all have outf: "out st = [''x.health;'', ''custom.otlp;'', ''e.otlp;'']"
    by (rule conjunct2[OF conjunct2[OF conjunct2]])
  have groups: "createPipelineGroups ?e (ServicePipelines (Service monitoredConfig)) = Inr ?groups"
    by (simp add: sampleEnv_def)
  have accepted: "validateNoDuplicateReceivers ?groups (maps_Keys ?e (Connectors monitoredConfig)) = []"
    by (simp add: sampleEnv_def monitoredConfig_def validateNoDuplicateReceivers_def filterIDs_def)
  from override_precedence[OF mem dec, of ?e "[]" monitoredConfig "[]"] first
  have table: "buildConverterTable (converters ?e) [?ov] ?key = Some ?ov"
    and eff: "(diags st, out st) = effects (invoked st) ([], [])"
    using run groups accepted by auto
  from table have table': "buildConverterTable monitoredConverters [?ov] ?key = Some ?ov"
    by (simp add: sampleEnv_def)
  from eff ds outf have "effects (invoked st) ([], []) =
      ([\<lparr>Severity = SeverityLevelWarn, Summary = ''custom''\<rparr>],
       [''x.health;'', ''custom.otlp;'', ''e.otlp;''])"
    by simp
  with table' run names ds outf show ?thesis by simp
qed

section \<open>Duplicate receivers\<close>




section \<open>One conversion per identity\<close>

text \<open>
  Claim C1. The connector pass of the group loop ranges over all connectors of the
  configuration in every group, where the receiver, processor and exporter passes range
  over the members of the group. In a configuration with two groups whose connector
  \<^verbatim>\<open>count\<close> is used by the first group only, the connector is converted once for the
  first group and once more for the second, and its block is twice in the output: the
  identity is not converted at most once.
\<close>

theorem connector_converted_in_every_group:
  "ID ''count'' [] \<notin> set (group_Receivers (ServicePipelines (Service bridgedConfig) ! 1)) \<and>
   ID ''count'' [] \<notin> set (group_Processors (ServicePipelines (Service bridgedConfig) ! 1)) \<and>
   ID ''count'' [] \<notin> set (group_Exporters (ServicePipelines (Service bridgedConfig) ! 1)) \<and>
   (case AppendConfig (sampleEnv sampleConverters [ID ''count'' []] bridgedConfig) []
          bridgedConfig [] [] of
      Inl p \<Rightarrow> None
    | Inr st \<Rightarrow> Some (map fst (invoked st), out st)) =
   Some ([InstanceID (ID ''otlp'' []) KindReceiver,
          InstanceID (ID ''otlp'' []) KindExporter,
          InstanceID (ID ''count'' []) KindConnector,
          InstanceID (ID ''jaeger'' []) KindReceiver,
          InstanceID (ID ''debug'' []) KindExporter,
          InstanceID (ID ''count'' []) KindConnector],
         [''r.otlp;'', ''e.otlp;'', ''c.count;'', ''r.jaeger;'', ''e.debug;'', ''c.count;''])"
proof -
  have members:
    "ID ''count'' [] \<notin> set (group_Receivers (ServicePipelines (Service bridgedConfig) ! 1))"
    "ID ''count'' [] \<notin> set (group_Processors (ServicePipelines (Service bridgedConfig) ! 1))"
    "ID ''count'' [] \<notin> set (group_Exporters (ServicePipelines (Service bridgedConfig) ! 1))"
    by (simp_all add: bridgedConfig_def)
  have run: "(case AppendConfig (sampleEnv sampleConverters [ID ''count'' []] bridgedConfig) []
          bridgedConfig [] [] of
      Inl p \<Rightarrow> None
    | Inr st \<Rightarrow> Some (map fst (invoked st), out st)) =
   Some ([InstanceID (ID ''otlp'' []) KindReceiver,
          InstanceID (ID ''otlp'' []) KindExporter,
          InstanceID (ID ''count'' []) KindConnector,
          InstanceID (ID ''jaeger'' []) KindReceiver,
          InstanceID (ID ''debug'' []) KindExporter,
          InstanceID (ID ''count'' []) KindConnector],
         [''r.otlp;'', ''e.otlp;'', ''c.count;'', ''r.jaeger;'', ''e.debug;'', ''c.count;''])"
    by (simp add: AppendConfig_def Let_def sampleEnv_def bridgedConfig_def
        validateNoDuplicateReceivers_def filterIDs_def buildConverterTable_find
        sampleConverters_def declares_def sampleConverter_def componentSets_def
        NewInstanceID_def AddAll_def)
  from members run show ?thesis by blast
qed

section \<open>A receiver in two groups\<close>



section \<open>Convert\<close>

text \<open>
  Claim C7. When \<^verbatim>\<open>readOpentelemetryConfig\<close> returns an error, or the configuration it
  returns does not validate, \<^verbatim>\<open>Convert\<close> returns nil output and exactly one diagnostic,
  which is critical and carries the error (the validation error after the words
  \<^verbatim>\<open>failed to validate config:\<close>). With extra arguments the input is not read, and the
  result is again nil output and one critical diagnostic.
\<close>

theorem input_failure:
  assumes "readOpentelemetryConfig e inp = Inr (Inl msg) \<or>
     (\<exists>config err. readOpentelemetryConfig e inp = Inr (Inr config) \<and>
        Validate e config = Some err \<and> msg = ''failed to validate config: '' @ err)"
  shows "Convert e inp [] = Inr (None, [\<lparr>Severity = SeverityLevelCritical, Summary = msg\<rparr>]) \<and>
     (\<exists>d. Convert e inp extraArgs = Inr (None, [d]) \<and> critical d)"
proof -
  have none: "Convert e inp [] = Inr (None, [\<lparr>Severity = SeverityLevelCritical, Summary = msg\<rparr>])"
    using assms by (auto simp: Convert_def Add_def)
  have "\<exists>d. Convert e inp extraArgs = Inr (None, [d]) \<and> critical d"
  proof (cases extraArgs)
    case Nil
    with none show ?thesis by (simp add: critical_def)
  next
    case (Cons a as)
    then show ?thesis by (simp add: Convert_def Add_def critical_def)
  qed
  with none show ?thesis by simp
qed

theorem input_failure_witness:
  "Convert (sampleEnv sampleConverters [] plainConfig\<lparr>Get := \<lambda>r facts. Inl ''yaml: line 1''\<rparr>)
     ''receivers: ['' [] =
   Inr (None, [\<lparr>Severity = SeverityLevelCritical,
                 Summary = ''failed to get otelcol config: yaml: line 1''\<rparr>])"
proof -
  let ?e = "sampleEnv sampleConverters [] plainConfig\<lparr>Get := \<lambda>r facts. Inl ''yaml: line 1''\<rparr>"
  have "readOpentelemetryConfig ?e ''receivers: ['' =
      Inr (Inl ''failed to get otelcol config: yaml: line 1'')"
    by (simp add: readOpentelemetryConfig_def sampleEnv_def getFactories_def sampleConverters_def
        sampleConverter_def)
  then have "readOpentelemetryConfig ?e ''receivers: ['' =
        Inr (Inl ''failed to get otelcol config: yaml: line 1'') \<or>
      (\<exists>config err. readOpentelemetryConfig ?e ''receivers: ['' = Inr (Inr config) \<and>
         Validate ?e config = Some err \<and>
         ''failed to get otelcol config: yaml: line 1'' = ''failed to validate config: '' @ err)"
    by (rule disjI1)
  from input_failure[OF this] show ?thesis by blast
qed

text \<open>
  Claim C3, as amended. \<^verbatim>\<open>Convert\<close> does not look for critical entries among the
  diagnostics it collected before it renders. It returns output that is not nil exactly
  when there are no extra arguments, the input is read and validated, \<^verbatim>\<open>AppendConfig\<close>
  returns, the file renders to bytes that are not empty and the pretty printer returns
  bytes; the diagnostics are then those \<^verbatim>\<open>AppendConfig\<close> returned, followed by those of
  \<^verbatim>\<open>ValidateNodes\<close> and those of \<^verbatim>\<open>PrettyPrint\<close>, whatever their severity. When moreover
  the empty file renders to no bytes, the grouping succeeded, the duplicate check passed,
  and the diagnostics of \<^verbatim>\<open>AppendConfig\<close> are those its calls of the converters
  returned. So a critical diagnostic for extra arguments, a read, validation or render
  failure, a failed grouping or a duplicate receiver comes with nil output, whereas a
  critical diagnostic that a converter, the validation of the nodes or the pretty
  printer returns does not suppress the output.
\<close>

theorem output_with_diagnostics:
  "(Convert e inp extraArgs = Inr (Some bytes, ds)) =
     (extraArgs = [] \<and>
      (\<exists>config st buf newDiags.
         readOpentelemetryConfig e inp = Inr (Inr config) \<and> Validate e config = None \<and>
         AppendConfig e (NewFile e) config [] [] = Inr st \<and>
         WriteTo e (out st) = Inr buf \<and> buf \<noteq> [] \<and>
         PrettyPrint e buf = (Some bytes, newDiags) \<and>
         ds = diags st @ ValidateNodes e (out st) @ newDiags)) \<and>
   (Convert e inp extraArgs = Inr (Some bytes, ds) \<and> WriteTo e (NewFile e) = Inr [] \<longrightarrow>
      (\<exists>config st groups.
         readOpentelemetryConfig e inp = Inr (Inr config) \<and>
         AppendConfig e (NewFile e) config [] [] = Inr st \<and>
         createPipelineGroups e (ServicePipelines (Service config)) = Inr groups \<and>
         validateNoDuplicateReceivers groups (maps_Keys e (Connectors config)) = [] \<and>
         (diags st, out st) = effects (invoked st) ([], NewFile e)))"
proof -
  let ?P = "\<lambda>config st buf newDiags.
      readOpentelemetryConfig e inp = Inr (Inr config) \<and> Validate e config = None \<and>
      AppendConfig e (NewFile e) config [] [] = Inr st \<and>
      WriteTo e (out st) = Inr buf \<and> buf \<noteq> [] \<and>
      PrettyPrint e buf = (Some bytes, newDiags) \<and>
      ds = diags st @ ValidateNodes e (out st) @ newDiags"
  have forward: "extraArgs = [] \<and> (\<exists>config st buf newDiags. ?P config st buf newDiags)"
    if conv: "Convert e inp extraArgs = Inr (Some bytes, ds)"
  proof -
    from conv have args: "extraArgs = []"
      by (auto simp: Convert_def split: if_splits)
    from conv args have "\<exists>config st buf newDiags. ?P config st buf newDiags"
      by (auto simp: Convert_def Let_def AddAll_def Add_def
          split: sum.splits option.splits if_splits prod.splits)
    with args show ?thesis by simp
  qed
  have backward: "Convert e inp extraArgs = Inr (Some bytes, ds)"
    if args: "extraArgs = []" and p: "?P config st buf newDiags" for config st buf newDiags
    using args p by (simp add: Convert_def Let_def AddAll_def)
  have passed: "\<exists>config st groups.
         readOpentelemetryConfig e inp = Inr (Inr config) \<and>
         AppendConfig e (NewFile e) config [] [] = Inr st \<and>
         createPipelineGroups e (ServicePipelines (Service config)) = Inr groups \<and>
         validateNoDuplicateReceivers groups (maps_Keys e (Connectors config)) = [] \<and>
         (diags st, out st) = effects (invoked st) ([], NewFile e)"
    if conv: "Convert e inp extraArgs = Inr (Some bytes, ds)"
      and empty: "WriteTo e (NewFile e) = Inr []"
  proof -
    from forward[OF conv] obtain config st buf where
      rd: "readOpentelemetryConfig e inp = Inr (Inr config)" and
      app: "AppendConfig e (NewFile e) config [] [] = Inr st" and
      wr: "WriteTo e (out st) = Inr buf" and
      ne: "buf \<noteq> []"
      by blast
    have changed: "out st \<noteq> NewFile e"
      using wr ne empty by auto
    obtain groups where
      groups: "createPipelineGroups e (ServicePipelines (Service config)) = Inr groups"
    proof (cases "createPipelineGroups e (ServicePipelines (Service config))")
      case (Inl err)
      with app have "out st = NewFile e" by (auto simp: AppendConfig_def)
      with changed show ?thesis by simp
    next
      case (Inr groups)
      then show ?thesis by (rule that)
    qed
    have accepted: "validateNoDuplicateReceivers groups (maps_Keys e (Connectors config)) = []"
    proof (rule ccontr)
      assume rejected: "validateNoDuplicateReceivers groups (maps_Keys e (Connectors config)) \<noteq> []"
      from AppendConfig_rejected[OF groups rejected, of "NewFile e" "[]" "[]"] app
      have "out st = NewFile e" by auto
      with changed show False by simp
    qed
    from AppendConfig_ran[OF app groups accepted]
    have "(diags st, out st) = effects (invoked st) ([], NewFile e)"
      by (simp add: ran_def)
    with rd app groups accepted show ?thesis by blast
  qed
  have eq: "(Convert e inp extraArgs = Inr (Some bytes, ds)) =
      (extraArgs = [] \<and> (\<exists>config st buf newDiags. ?P config st buf newDiags))"
  proof (rule iffI)
    assume "Convert e inp extraArgs = Inr (Some bytes, ds)"
    then show "extraArgs = [] \<and> (\<exists>config st buf newDiags. ?P config st buf newDiags)"
      by (rule forward)
  next
    assume "extraArgs = [] \<and> (\<exists>config st buf newDiags. ?P config st buf newDiags)"
    then show "Convert e inp extraArgs = Inr (Some bytes, ds)"
      using backward by blast
  qed
  show ?thesis
  proof (rule conjI)
    show "(Convert e inp extraArgs = Inr (Some bytes, ds)) =
      (extraArgs = [] \<and> (\<exists>config st buf newDiags. ?P config st buf newDiags))"
      by (rule eq)
    show "Convert e inp extraArgs = Inr (Some bytes, ds) \<and> WriteTo e (NewFile e) = Inr [] \<longrightarrow>
      (\<exists>config st groups.
         readOpentelemetryConfig e inp = Inr (Inr config) \<and>
         AppendConfig e (NewFile e) config [] [] = Inr st \<and>
         createPipelineGroups e (ServicePipelines (Service config)) = Inr groups \<and>
         validateNoDuplicateReceivers groups (maps_Keys e (Connectors config)) = [] \<and>
         (diags st, out st) = effects (invoked st) ([], NewFile e))"
      using passed by blast
  qed
qed

text \<open>
  The receiver's converter returns a critical diagnostic and appends its block; the
  output holds both blocks and the diagnostics hold the critical entry.
\<close>

theorem output_with_diagnostics_counterexample:
  "Convert (sampleEnv strictConverters [] plainConfig) ''service:'' [] =
     Inr (Some ''r.otlp;e.otlp;'',
          [\<lparr>Severity = SeverityLevelCritical, Summary = ''unsupported setting''\<rparr>])"
  by (simp add: Convert_def readOpentelemetryConfig_def getFactories_def AppendConfig_def Let_def
      sampleEnv_def plainConfig_def validateNoDuplicateReceivers_def filterIDs_def
      buildConverterTable_find strictConverters_def declares_def sampleConverter_def
      componentSets_def NewInstanceID_def AddAll_def)

text \<open>
  Here the converter of the receiver, the validation of the nodes and the pretty printer
  each return a critical diagnostic: the output is rendered and returned with the three.
\<close>

theorem output_with_diagnostics_witness:
  "Convert (strictEnv plainConfig) ''service:'' [] =
     Inr (Some ''r.otlp;e.otlp;'',
          [\<lparr>Severity = SeverityLevelCritical, Summary = ''unsupported setting''\<rparr>,
           \<lparr>Severity = SeverityLevelCritical, Summary = ''duplicate component label''\<rparr>,
           \<lparr>Severity = SeverityLevelCritical, Summary = ''not printable''\<rparr>]) \<and>
   validateNoDuplicateReceivers (ServicePipelines (Service plainConfig))
     (maps_Keys (strictEnv plainConfig) (Connectors plainConfig)) = []"
proof -
  let ?e = "strictEnv plainConfig"
  let ?ds = "[\<lparr>Severity = SeverityLevelCritical, Summary = ''unsupported setting''\<rparr>,
           \<lparr>Severity = SeverityLevelCritical, Summary = ''duplicate component label''\<rparr>,
           \<lparr>Severity = SeverityLevelCritical, Summary = ''not printable''\<rparr>]"
  have rd: "readOpentelemetryConfig ?e ''service:'' = Inr (Inr plainConfig)"
    by (simp add: readOpentelemetryConfig_def strictEnv_def sampleEnv_def getFactories_def
        strictConverters_def sampleConverter_def)
  have va: "Validate ?e plainConfig = None"
    by (simp add: strictEnv_def sampleEnv_def)
  have "\<exists>st. AppendConfig ?e (NewFile ?e) plainConfig [] [] = Inr st \<and>
      diags st = [\<lparr>Severity = SeverityLevelCritical, Summary = ''unsupported setting''\<rparr>] \<and>
      out st = [''r.otlp;'', ''e.otlp;'']"
    by (simp add: AppendConfig_def Let_def strictEnv_def sampleEnv_def plainConfig_def
        validateNoDuplicateReceivers_def filterIDs_def buildConverterTable_find
        strictConverters_def declares_def sampleConverter_def componentSets_def
        NewInstanceID_def AddAll_def)
  then obtain st where all:
    "AppendConfig ?e (NewFile ?e) plainConfig [] [] = Inr st \<and>
      diags st = [\<lparr>Severity = SeverityLevelCritical, Summary = ''unsupported setting''\<rparr>] \<and>
      out st = [''r.otlp;'', ''e.otlp;'']" ..
  from all have app: "AppendConfig ?e (NewFile ?e) plainConfig [] [] = Inr st"
    by (rule conjunct1)
  from all have dst: "diags st =
      [\<lparr>Severity = SeverityLevelCritical, Summary = ''unsupported setting''\<rparr>]"
    by (rule conjunct1[OF conjunct2])
  from all have ost: "out st = [''r.otlp;'', ''e.otlp;'']"
    by (rule conjunct2[OF conjunct2])
  have wr: "WriteTo ?e (out st) = Inr ''r.otlp;e.otlp;''"
    by (simp add: ost strictEnv_def sampleEnv_def)
  have ne: "''r.otlp;e.otlp;'' \<noteq> []" by simp
  have pp: "PrettyPrint ?e ''r.otlp;e.otlp;'' =
      (Some ''r.otlp;e.otlp;'',
       [\<lparr>Severity = SeverityLevelCritical, Summary = ''not printable''\<rparr>])"
    by (simp add: strictEnv_def sampleEnv_def)
  have all_ds: "?ds = diags st @ ValidateNodes ?e (out st) @
      [\<lparr>Severity = SeverityLevelCritical, Summary = ''not printable''\<rparr>]"
    by (simp add: dst strictEnv_def sampleEnv_def)
  note inst = output_with_diagnostics[of ?e "''service:''" "[]" "''r.otlp;e.otlp;''" ?ds]
  have conv: "Convert ?e ''service:'' [] = Inr (Some ''r.otlp;e.otlp;'', ?ds)"
    using inst rd va app wr ne pp all_ds by blast
  have empty: "WriteTo ?e (NewFile ?e) = Inr []"
    by (simp add: strictEnv_def sampleEnv_def)
  from inst conv empty obtain config groups where
    rd': "readOpentelemetryConfig ?e ''service:'' = Inr (Inr config)" and
    gr: "createPipelineGroups ?e (ServicePipelines (Service config)) = Inr groups" and
    ok: "validateNoDuplicateReceivers groups (maps_Keys ?e (Connectors config)) = []"
    by blast
  from rd rd' have config: "config = plainConfig" by simp
  with gr have "groups = ServicePipelines (Service plainConfig)"
    by (simp add: strictEnv_def sampleEnv_def)
  with conv ok config show ?thesis by simp
qed

text \<open>
  Claim C4. \<^verbatim>\<open>maps.Keys\<close> returns the keys of \<^verbatim>\<open>cfg.Connectors\<close> in the order in which
  the runtime enumerates the map, which differs from one run to the next, and the
  connectors are converted in that order. On one input with two connectors, two
  enumerations of the same map give two different outputs.
\<close>

theorem enumeration_order_shows:
  "enumerates (Connectors twoConnectorConfig)
     (maps_Keys (sampleEnv sampleConverters [ID ''count'' [], ID ''span'' []] twoConnectorConfig)
        (Connectors twoConnectorConfig)) \<and>
   enumerates (Connectors twoConnectorConfig)
     (maps_Keys (sampleEnv sampleConverters [ID ''span'' [], ID ''count'' []] twoConnectorConfig)
        (Connectors twoConnectorConfig)) \<and>
   Convert (sampleEnv sampleConverters [ID ''count'' [], ID ''span'' []] twoConnectorConfig)
     ''service:'' [] = Inr (Some ''r.otlp;e.otlp;c.count;c.span;'', []) \<and>
   Convert (sampleEnv sampleConverters [ID ''span'' [], ID ''count'' []] twoConnectorConfig)
     ''service:'' [] = Inr (Some ''r.otlp;e.otlp;c.span;c.count;'', [])"
proof -
  have e1: "enumerates (Connectors twoConnectorConfig)
     (maps_Keys (sampleEnv sampleConverters [ID ''count'' [], ID ''span'' []] twoConnectorConfig)
        (Connectors twoConnectorConfig))"
    by (auto simp: enumerates_def sampleEnv_def twoConnectorConfig_def)
  have e2: "enumerates (Connectors twoConnectorConfig)
     (maps_Keys (sampleEnv sampleConverters [ID ''span'' [], ID ''count'' []] twoConnectorConfig)
        (Connectors twoConnectorConfig))"
    by (auto simp: enumerates_def sampleEnv_def twoConnectorConfig_def)
  have c1: "Convert (sampleEnv sampleConverters [ID ''count'' [], ID ''span'' []] twoConnectorConfig)
     ''service:'' [] = Inr (Some ''r.otlp;e.otlp;c.count;c.span;'', [])"
    by (simp add: Convert_def readOpentelemetryConfig_def getFactories_def AppendConfig_def Let_def
        sampleEnv_def twoConnectorConfig_def validateNoDuplicateReceivers_def filterIDs_def
        buildConverterTable_find sampleConverters_def declares_def sampleConverter_def
        componentSets_def NewInstanceID_def AddAll_def)
  have c2: "Convert (sampleEnv sampleConverters [ID ''span'' [], ID ''count'' []] twoConnectorConfig)
     ''service:'' [] = Inr (Some ''r.otlp;e.otlp;c.span;c.count;'', [])"
    by (simp add: Convert_def readOpentelemetryConfig_def getFactories_def AppendConfig_def Let_def
        sampleEnv_def twoConnectorConfig_def validateNoDuplicateReceivers_def filterIDs_def
        buildConverterTable_find sampleConverters_def declares_def sampleConverter_def
        componentSets_def NewInstanceID_def AddAll_def)
  from e1 e2 c1 c2 show ?thesis by blast
qed

section \<open>Conditions fatal for the program\<close>

text \<open>
  A conversion whose key the table does not hold panics, in the extension loop and in
  the group loop, and \<^verbatim>\<open>getFactories\<close> panics on a factory of none of the five shapes.
\<close>

lemma convertIDs_lookup_miss:
  "converterTable \<lparr>Kind = kind, Type = idType i\<rparr> = None \<Longrightarrow>
   convertIDs config labelPrefix converterTable grp kind configLookup (i # ids) st =
     Inl (NoConverterFound \<lparr>Kind = kind, Type = idType i\<rparr>)"
  by simp

lemma convertExtensions_lookup_miss:
  "converterTable \<lparr>Kind = KindExtension, Type = idType ext\<rparr> = None \<Longrightarrow>
   convertExtensions e config labelPrefix converterTable (ext # exts) st =
     Inl (NoConverterFound \<lparr>Kind = KindExtension, Type = idType ext\<rparr>)"
  by simp

lemma getFactories_unknown_shape:
  "Factory converter = OtherFactory t \<Longrightarrow>
   getFactories_loop (converter # cs) facts = Inl (UnknownFactoryType (OtherFactory t))"
  by simp

text \<open>
  Claim C8. The type switch of \<^verbatim>\<open>buildConverterTable\<close> has no default case: a converter
  whose factory is of none of the five shapes is left out of the table and the
  construction goes on, where \<^verbatim>\<open>getFactories\<close> panics on the same converter. An
  override of this shape for the receiver \<^verbatim>\<open>otlp\<close> is skipped without a panic and without
  a diagnostic, and the built-in converter runs.
\<close>

theorem unknown_shape_skipped:
  "buildConverterTable builtins
     (\<lparr>Factory = OtherFactory t, InputComponentName = name, ConvertAndAppend = convert\<rparr> #
      extraConverters) =
   buildConverterTable builtins extraConverters \<and>
   getFactories [sampleConverter (OtherFactory ''otlp'') ''custom.otlp;'' []] =
     Inl (UnknownFactoryType (OtherFactory ''otlp'')) \<and>
   (case AppendConfig (sampleEnv sampleConverters [] plainConfig) [] plainConfig []
           [sampleConverter (OtherFactory ''otlp'') ''custom.otlp;'' []] of
      Inl p \<Rightarrow> None
    | Inr st \<Rightarrow> Some (diags st, out st)) = Some ([], [''r.otlp;'', ''e.otlp;''])"
proof -
  have skip: "buildConverterTable builtins
     (\<lparr>Factory = OtherFactory t, InputComponentName = name, ConvertAndAppend = convert\<rparr> #
      extraConverters) = buildConverterTable builtins extraConverters"
    by (simp add: buildConverterTable_def)
  have fatal: "getFactories [sampleConverter (OtherFactory ''otlp'') ''custom.otlp;'' []] =
     Inl (UnknownFactoryType (OtherFactory ''otlp''))"
    by (simp add: getFactories_def sampleConverter_def)
  have run: "(case AppendConfig (sampleEnv sampleConverters [] plainConfig) [] plainConfig []
           [sampleConverter (OtherFactory ''otlp'') ''custom.otlp;'' []] of
      Inl p \<Rightarrow> None
    | Inr st \<Rightarrow> Some (diags st, out st)) = Some ([], [''r.otlp;'', ''e.otlp;''])"
    by (simp add: AppendConfig_def Let_def sampleEnv_def plainConfig_def validateNoDuplicateReceivers_def
        filterIDs_def buildConverterTable_find sampleConverters_def declares_def sampleConverter_def
        componentSets_def NewInstanceID_def AddAll_def)
  from skip fatal run show ?thesis by blast
qed

end
